theory Spec2Isabelle
  imports Main "HOL-Library.Sublist"
begin

section \<open>The undo-capable file-mutation layer of pmpts (src/pmpts/cli.py)\<close>

text \<open>
  The development embeds \<open>add_file\<close>, \<open>remove_prompt\<close>, \<open>rename_prompt\<close> and
  \<open>perform_undo\<close> together with the library calls they make: \<open>pathlib\<close> paths,
  \<open>Path.exists\<close>, \<open>Path.mkdir(parents=True, exist_ok=True)\<close>, \<open>shutil.move\<close>,
  \<open>time.time\<close>, \<open>input\<close> and the configuration file written by \<open>save_config\<close>.
  Everything the functions read from outside (the clock, the typed answer, the working
  directory, which system calls are refused) is an explicit argument; the file tree and
  the configuration are an explicit state that each function returns updated.
\<close>

subsection \<open>Strings\<close>

definition SUFFIX :: string where
  "SUFFIX = ''.prompt.md''"

text \<open>\<open>s.endswith(suf)\<close>.\<close>

definition endswith :: "string \<Rightarrow> string \<Rightarrow> bool" where
  "endswith s suf = (length suf \<le> length s \<and> drop (length s - length suf) s = suf)"

text \<open>
  File names, log values and messages are strings of bytes (the UTF-8 form of Python's
  strings): the operations used on them, \<open>endswith\<close> with an ASCII suffix, concatenation
  and splitting at the slash, act on the bytes as Python's act on the code points. The
  answer to a confirmation is a list of Unicode code points, since \<open>strip\<close> depends on
  them.
\<close>

definition codepoints :: "string \<Rightarrow> nat list" where
  "codepoints s = map of_char s"

text \<open>
  \<open>ans.strip().lower() in ("y", "yes")\<close>. \<open>strip\<close> removes from both ends the code
  points for which \<open>str.isspace\<close> holds: the ASCII ones, U+0085, U+00A0, U+1680,
  U+2000..U+200A, U+2028, U+2029, U+202F, U+205F and U+3000. \<open>lower\<close> maps \<open>A\<close>..\<open>Z\<close> to
  \<open>a\<close>..\<open>z\<close>. (Python's \<open>lower\<close> changes letters outside ASCII too, but it maps no
  code point to the empty string, and only \<open>Y\<close>, \<open>E\<close>, \<open>S\<close> and \<open>y\<close>, \<open>e\<close>, \<open>s\<close> to a
  string that contains \<open>y\<close>, \<open>e\<close> or \<open>s\<close>; so the comparison with \<open>y\<close> and \<open>yes\<close>
  depends on it through \<open>A\<close>..\<open>Z\<close> only.)
\<close>

definition is_space :: "nat \<Rightarrow> bool" where
  "is_space c =
     (c \<in> set [0x09, 0x0A, 0x0B, 0x0C, 0x0D, 0x1C, 0x1D, 0x1E, 0x1F, 0x20, 0x85, 0xA0, 0x1680]
      \<or> (0x2000 \<le> c \<and> c \<le> 0x200A)
      \<or> c \<in> set [0x2028, 0x2029, 0x202F, 0x205F, 0x3000])"

definition strip :: "nat list \<Rightarrow> nat list" where
  "strip s = rev (dropWhile is_space (rev (dropWhile is_space s)))"

definition lower_cp :: "nat \<Rightarrow> nat" where
  "lower_cp c = (if 0x41 \<le> c \<and> c \<le> 0x5A then c + 0x20 else c)"

definition lower :: "nat list \<Rightarrow> nat list" where
  "lower s = map lower_cp s"

definition affirmative :: "nat list \<Rightarrow> bool" where
  "affirmative ans = (lower (strip ans) \<in> set [codepoints ''y'', codepoints ''yes''])"

text \<open>\<open>f"{n}"\<close> for a natural number: its decimal digits.\<close>

definition digit_char :: "nat \<Rightarrow> char" where
  "digit_char d = ''0123456789'' ! d"

fun str_nat :: "nat \<Rightarrow> string" where
  "str_nat n = (if n < 10 then [digit_char n] else str_nat (n div 10) @ [digit_char (n mod 10)])"

declare str_nat.simps [simp del]

text \<open>\<open>s.split(c)\<close> and \<open>sep.join(ws)\<close>.\<close>

fun split_on :: "char \<Rightarrow> string \<Rightarrow> string list" where
  "split_on c [] = [[]]"
| "split_on c (x # xs) =
     (if x = c then [] # split_on c xs
      else (case split_on c xs of [] \<Rightarrow> [[x]] | w # ws \<Rightarrow> (x # w) # ws))"

fun join_with :: "string \<Rightarrow> string list \<Rightarrow> string" where
  "join_with sep [] = []"
| "join_with sep [w] = w"
| "join_with sep (w # v # ws) = w @ sep @ join_with sep (v # ws)"

subsection \<open>pathlib paths\<close>

text \<open>
  A \<open>PurePosixPath\<close> is its anchor (absolute or not) and its components. \<open>Path(s)\<close> splits
  \<open>s\<close> at the slashes and drops the empty components and the components \<open>.\<close>;
  \<open>str(p)\<close> joins the components again, and is \<open>.\<close> for the relative path without
  components. (A string that starts with exactly two slashes keeps them in Python;
  here it is absolute like any other.)
\<close>

datatype path = Path (absolute: bool) (parts: "string list")

definition Path_of :: "string \<Rightarrow> path" where
  "Path_of s = Path (take 1 s = ''/'')
                    (filter (\<lambda>w. w \<noteq> [] \<and> w \<noteq> ''.'') (split_on (CHR ''/'') s))"

definition str_path :: "path \<Rightarrow> string" where
  "str_path p =
     (if parts p = [] then (if absolute p then ''/'' else ''.'')
      else (if absolute p then ''/'' else []) @ join_with ''/'' (parts p))"

text \<open>\<open>p / q\<close>: an absolute right operand replaces the left one.\<close>

definition joinpath :: "path \<Rightarrow> path \<Rightarrow> path" where
  "joinpath p q = (if absolute q then q else Path (absolute p) (parts p @ parts q))"

text \<open>\<open>p / s\<close> for a string \<open>s\<close>.\<close>

definition join_str :: "path \<Rightarrow> string \<Rightarrow> path" where
  "join_str p s = joinpath p (Path_of s)"

text \<open>\<open>p.name\<close> and \<open>p.parent\<close>.\<close>

definition path_name :: "path \<Rightarrow> string" where
  "path_name p = (if parts p = [] then [] else last (parts p))"

definition path_parent :: "path \<Rightarrow> path" where
  "path_parent p = (if parts p = [] then p else Path (absolute p) (butlast (parts p)))"

text \<open>What every path built by \<open>Path(...)\<close> satisfies.\<close>

definition valid_part :: "string \<Rightarrow> bool" where
  "valid_part w = (w \<noteq> [] \<and> w \<noteq> ''.'' \<and> CHR ''/'' \<notin> set w)"

definition wf_path :: "path \<Rightarrow> bool" where
  "wf_path p = list_all valid_part (parts p)"

subsection \<open>The file tree\<close>

text \<open>
  A file tree maps the absolute component list of a path to a regular file with its
  bytes or to a directory. A relative path is read from the working directory. Symbolic
  links and \<open>..\<close> components are not modelled.
\<close>

datatype node = File string | Dir

type_synonym tree = "string list \<Rightarrow> node option"

datatype site =
    Mkdir_trash | Move_to_trash | Move_final | Move_rollback | Write_config
  | Mkdir_parent | Move_restore | Move_added | Move_back | Move_fallback

text \<open>
  The environment of one call: \<open>now\<close> is \<open>int(time.time())\<close> (a time after 1970),
  \<open>answer\<close> the code points of the line that \<open>input\<close> returns, \<open>cwd\<close> the components
  of \<open>Path.cwd()\<close>, and \<open>fails\<close> says which of the call's system calls the operating system refuses
  (permissions, full disk, another device, a missing parent directory). Each place where
  a function calls \<open>mkdir\<close>, \<open>shutil.move\<close> or writes the configuration is a \<open>site\<close>; a
  function passes through each of its sites at most once. A refused call leaves the
  tree as it was. Nothing is assumed about \<open>fails\<close>, so what is proved for every
  environment holds whatever the system refuses.
\<close>

record env =
  now :: nat
  answer :: "nat list"
  cwd :: "string list"
  fails :: "site \<Rightarrow> bool"

definition key :: "env \<Rightarrow> path \<Rightarrow> string list" where
  "key e p = (if absolute p then parts p else cwd e @ parts p)"

definition path_exists :: "env \<Rightarrow> tree \<Rightarrow> path \<Rightarrow> bool" where
  "path_exists e t p = (t (key e p) \<noteq> None)"

definition is_file :: "tree \<Rightarrow> string list \<Rightarrow> bool" where
  "is_file t k = (case t k of Some (File c) \<Rightarrow> True | _ \<Rightarrow> False)"

text \<open>
  \<open>d.mkdir(parents=True, exist_ok=True)\<close>: raises (\<open>None\<close>) when the system refuses or a
  regular file is in the way; otherwise the directory and all its ancestors exist
  afterwards.
\<close>

definition mkdir_parents :: "bool \<Rightarrow> tree \<Rightarrow> string list \<Rightarrow> tree option" where
  "mkdir_parents refused t k =
     (if refused \<or> list_ex (is_file t) (prefixes k) then None
      else Some (\<lambda>q. if prefix q k then Some Dir else t q))"

text \<open>Renaming a directory takes everything below it along.\<close>

definition move_tree :: "tree \<Rightarrow> string list \<Rightarrow> string list \<Rightarrow> tree" where
  "move_tree t s d =
     (\<lambda>q. if prefix d q then t (s @ drop (length d) q)
          else if prefix s q then None
          else t q)"

text \<open>
  \<open>shutil.move(src, dst)\<close>. When \<open>dst\<close> is an existing directory the source goes inside
  it under its own name, and the call raises if that name is taken. A regular file
  replaces a regular file at the target. A directory cannot replace a file nor go below
  itself. Moving something onto itself changes nothing. The call raises (\<open>None\<close>) when the
  source is missing or the system refuses; then the tree is as before.
\<close>

definition move :: "bool \<Rightarrow> tree \<Rightarrow> env \<Rightarrow> path \<Rightarrow> path \<Rightarrow> tree option" where
  "move refused t e src dst =
     (let s = key e src; d = key e dst in
      if refused then None
      else if s = d then (if t s = None then None else Some t)
      else if t d = Some Dir then
        (if parts src = [] then None
         else if t (d @ [path_name src]) = None then
           (case t s of
              None \<Rightarrow> None
            | Some (File c) \<Rightarrow> Some ((t(s := None))(d @ [path_name src] \<mapsto> File c))
            | Some Dir \<Rightarrow>
                (if prefix s (d @ [path_name src]) then None
                 else Some (move_tree t s (d @ [path_name src]))))
         else None)
      else
        (case t s of
           None \<Rightarrow> None
         | Some (File c) \<Rightarrow> Some ((t(s := None))(d \<mapsto> File c))
         | Some Dir \<Rightarrow>
             (if t d = None then (if prefix s d then None else Some (move_tree t s d))
              else None)))"

subsection \<open>The configuration and the action log\<close>

text \<open>
  The configuration dictionary has the keys \<open>root\<close> and \<open>last_action\<close>; the log entry is a
  dictionary from strings to strings, kept in insertion order. The state holds the file
  tree, the dictionary \<open>cfg\<close> that the caller passes in (the functions change it in
  place) and \<open>disk\<close>, the content of the configuration file, which is kept apart from
  the file tree.
\<close>

record config =
  cfg_root :: "string option"
  last_action :: "(string \<times> string) list option"

record state =
  fs :: tree
  cfg :: config
  disk :: config

text \<open>\<open>save_config\<close> reports a failed write on stderr and goes on.\<close>

definition save_config :: "env \<Rightarrow> state \<Rightarrow> state" where
  "save_config e s = (if fails e Write_config then s else s\<lparr>disk := cfg s\<rparr>)"

text \<open>\<open>cfg["last_action"] = entry\<close> and \<open>cfg.pop("last_action", None)\<close>.\<close>

definition set_last :: "(string \<times> string) list \<Rightarrow> state \<Rightarrow> state" where
  "set_last entry s = s\<lparr>cfg := (cfg s)\<lparr>last_action := Some entry\<rparr>\<rparr>"

definition pop_last :: "state \<Rightarrow> state" where
  "pop_last s = s\<lparr>cfg := (cfg s)\<lparr>last_action := None\<rparr>\<rparr>"

subsection \<open>Results\<close>

text \<open>
  Every function returns a pair of a success flag and a message. The messages, with
  the source text of each:
\<close>

datatype msg =
    File_not_found string          \<comment> \<open>\<open>File not found: {src}\<close>\<close>
  | Aborted                        \<comment> \<open>\<open>aborted\<close>\<close>
  | Failed_trash_existing          \<comment> \<open>\<open>Failed to move existing prompt to trash: {e}\<close>\<close>
  | Failed_move                    \<comment> \<open>\<open>Failed to move: {e}\<close>\<close>
  | Added string string            \<comment> \<open>\<open>added prompt {base}\nuse /{name_no_suffix} to use it\<close>\<close>
  | Not_found string               \<comment> \<open>\<open>Not found: {candidate}\<close>\<close>
  | Failed_remove                  \<comment> \<open>\<open>Failed to remove (move to trash): {e}\<close>\<close>
  | Removed string                 \<comment> \<open>\<open>removed {candidate} (moved to trash)\<close>\<close>
  | Failed_trash_target            \<comment> \<open>\<open>Failed to move existing target to trash: {e}\<close>\<close>
  | Failed_rename                  \<comment> \<open>\<open>Failed to rename: {e}\<close>\<close>
  | Renamed string string          \<comment> \<open>\<open>renamed {old_candidate} -> {new_candidate}\<close>\<close>
  | No_action                      \<comment> \<open>\<open>no action to undo\<close>\<close>
  | Trashed_not_found              \<comment> \<open>\<open>trashed file not found\<close>\<close>
  | Failed_restore                 \<comment> \<open>\<open>failed to restore: {e}\<close>\<close>
  | Restored string                \<comment> \<open>\<open>restored {dest.name}\<close>\<close>
  | Added_not_found                \<comment> \<open>\<open>added file not found\<close>\<close>
  | Restored_overwritten           \<comment> \<open>\<open>restored overwritten prompt and moved new added file to trash\<close>\<close>
  | Moved_back string string       \<comment> \<open>\<open>moved {dest.name} back to {src}\<close>\<close>
  | Moved_to string string         \<comment> \<open>\<open>moved {dest.name} to {fallback}\<close>\<close>
  | Failed_undo_add                \<comment> \<open>\<open>failed to undo add: {e}\<close>\<close>
  | Unknown_action                 \<comment> \<open>\<open>unknown last action\<close>\<close>

text \<open>A call returns its pair, or an exception leaves it (\<open>Raised\<close>).\<close>

datatype 'a outcome = Raised | Returned 'a

type_synonym result = "(bool \<times> msg) outcome \<times> state"

text \<open>
  The error kinds of the specification, by message: \<open>NotFoundError\<close> (source or target
  missing), \<open>AbortedError\<close> (confirmation declined), \<open>IOError\<close> (a move failed),
  \<open>NoActionError\<close> (empty log), \<open>UnknownActionError\<close> (unsupported log entry).
\<close>

datatype error_kind = NotFoundError | AbortedError | IOError | NoActionError | UnknownActionError

fun kind_of :: "msg \<Rightarrow> error_kind option" where
  "kind_of (File_not_found _) = Some NotFoundError"
| "kind_of (Not_found _) = Some NotFoundError"
| "kind_of Trashed_not_found = Some NotFoundError"
| "kind_of Added_not_found = Some NotFoundError"
| "kind_of Aborted = Some AbortedError"
| "kind_of Failed_trash_existing = Some IOError"
| "kind_of Failed_move = Some IOError"
| "kind_of Failed_remove = Some IOError"
| "kind_of Failed_trash_target = Some IOError"
| "kind_of Failed_rename = Some IOError"
| "kind_of Failed_restore = Some IOError"
| "kind_of Failed_undo_add = Some IOError"
| "kind_of No_action = Some NoActionError"
| "kind_of Unknown_action = Some UnknownActionError"
| "kind_of _ = None"

text \<open>A call fails with a kind when it returns \<open>False\<close> and a message of that kind.\<close>

definition fails_with :: "(bool \<times> msg) outcome \<Rightarrow> error_kind \<Rightarrow> bool" where
  "fails_with r k = (case r of Raised \<Rightarrow> False | Returned (ok, m) \<Rightarrow> \<not> ok \<and> kind_of m = Some k)"

definition succeeded :: "(bool \<times> msg) outcome \<Rightarrow> bool" where
  "succeeded r = (case r of Raised \<Rightarrow> False | Returned (ok, m) \<Rightarrow> ok)"

subsection \<open>The trash directory\<close>

text \<open>
  \<open>trash_dir_for(root)\<close> (lines 49-52): the directory \<open>root/.trash\<close>, created when
  absent. The name of a trashed file is \<open>f"{int(time.time())}_{p.name}"\<close>.
\<close>

definition trash_dir_for :: "bool \<Rightarrow> env \<Rightarrow> tree \<Rightarrow> path \<Rightarrow> (path \<times> tree) option" where
  "trash_dir_for refused e t root =
     (let d = join_str root ''.trash'' in
      case mkdir_parents refused t (key e d) of
        None \<Rightarrow> None
      | Some t' \<Rightarrow> Some (d, t'))"

definition trash_name :: "env \<Rightarrow> path \<Rightarrow> string" where
  "trash_name e p = str_nat (now e) @ ''_'' @ path_name p"

subsection \<open>add (lines 55-104)\<close>

text \<open>
  Lines 81-104: the move of the source to the destination, the restore of the trashed
  file when that move raises, and the log entry with the message on success.
\<close>

definition add_move :: "env \<Rightarrow> path \<Rightarrow> string \<Rightarrow> path \<Rightarrow> path option \<Rightarrow> state \<Rightarrow> result" where
  "add_move e src base dest overwritten_trash s =
     (case move (fails e Move_final) (fs s) e src dest of
        None \<Rightarrow>
          (case overwritten_trash of
             None \<Rightarrow> (Returned (False, Failed_move), s)
           | Some ot \<Rightarrow>
               (if path_exists e (fs s) ot then
                  (case move (fails e Move_rollback) (fs s) e ot dest of
                     None \<Rightarrow> (Returned (False, Failed_move), s)
                   | Some t' \<Rightarrow> (Returned (False, Failed_move), s\<lparr>fs := t'\<rparr>))
                else (Returned (False, Failed_move), s)))
      | Some t' \<Rightarrow>
          (let cfg_last = [(''action'', ''add''), (''src'', str_path src), (''dest'', str_path dest)]
                 @ (case overwritten_trash of
                      None \<Rightarrow> []
                    | Some ot \<Rightarrow> [(''overwritten_trash'', str_path ot)]);
               name_no_suffix =
                 (if endswith base SUFFIX then take (length base - length SUFFIX) base else base)
           in (Returned (True, Added base name_no_suffix),
               save_config e (set_last cfg_last (s\<lparr>fs := t'\<rparr>)))))"

text \<open>Lines 59-61: the name of the destination.\<close>

definition add_base :: "path \<Rightarrow> string" where
  "add_base src =
     (if \<not> endswith (path_name src) SUFFIX then path_name src @ SUFFIX else path_name src)"

definition add_file :: "env \<Rightarrow> path \<Rightarrow> path \<Rightarrow> bool \<Rightarrow> state \<Rightarrow> result" where
  "add_file e root src force s =
     (if \<not> path_exists e (fs s) src then (Returned (False, File_not_found (str_path src)), s)
      else
        (let base = add_base src;
             dest = join_str root base
         in if path_exists e (fs s) dest then
              (if \<not> force \<and> \<not> affirmative (answer e) then (Returned (False, Aborted), s)
               else
                 (case trash_dir_for (fails e Mkdir_trash) e (fs s) root of
                    None \<Rightarrow> (Raised, s)
                  | Some (td, t1) \<Rightarrow>
                      (let overwritten_trash = join_str td (trash_name e dest) in
                       case move (fails e Move_to_trash) t1 e dest overwritten_trash of
                         None \<Rightarrow> (Returned (False, Failed_trash_existing), s\<lparr>fs := t1\<rparr>)
                       | Some t2 \<Rightarrow>
                           add_move e src base dest (Some overwritten_trash) (s\<lparr>fs := t2\<rparr>))))
            else add_move e src base dest None s))"

subsection \<open>remove (lines 107-128)\<close>

text \<open>
  \<open>name if name.endswith(SUFFIX) else name + SUFFIX\<close>: the file name of a prompt given by
  name (lines 110, 146, 147).
\<close>

definition candidate_of :: "string \<Rightarrow> string" where
  "candidate_of name = (if endswith name SUFFIX then name else name @ SUFFIX)"

definition remove_prompt :: "env \<Rightarrow> path \<Rightarrow> string \<Rightarrow> bool \<Rightarrow> state \<Rightarrow> result" where
  "remove_prompt e root name yes s =
     (let candidate = candidate_of name;
          p = join_str root candidate
      in if \<not> path_exists e (fs s) p then (Returned (False, Not_found candidate), s)
         else if \<not> yes \<and> \<not> affirmative (answer e) then (Returned (False, Aborted), s)
         else
           (case trash_dir_for (fails e Mkdir_trash) e (fs s) root of
              None \<Rightarrow> (Raised, s)
            | Some (td, t1) \<Rightarrow>
                (let trashed = join_str td (trash_name e p) in
                 case move (fails e Move_to_trash) t1 e p trashed of
                   None \<Rightarrow> (Returned (False, Failed_remove), s\<lparr>fs := t1\<rparr>)
                 | Some t2 \<Rightarrow>
                     (Returned (True, Removed candidate),
                      save_config e
                        (set_last [(''action'', ''remove''), (''dest'', str_path p),
                                   (''trashed'', str_path trashed)]
                           (s\<lparr>fs := t2\<rparr>))))))"

subsection \<open>rename (lines 143-183)\<close>

text \<open>Lines 168-183: the move of the old file to the new name, and the restore.\<close>

definition rename_move :: "env \<Rightarrow> string \<Rightarrow> string \<Rightarrow> path \<Rightarrow> path \<Rightarrow> path option \<Rightarrow> state \<Rightarrow> result" where
  "rename_move e old_candidate new_candidate p_old p_new overwritten s =
     (case move (fails e Move_final) (fs s) e p_old p_new of
        None \<Rightarrow>
          (case overwritten of
             None \<Rightarrow> (Returned (False, Failed_rename), s)
           | Some ov \<Rightarrow>
               (if path_exists e (fs s) ov then
                  (case move (fails e Move_rollback) (fs s) e ov p_new of
                     None \<Rightarrow> (Returned (False, Failed_rename), s)
                   | Some t' \<Rightarrow> (Returned (False, Failed_rename), s\<lparr>fs := t'\<rparr>))
                else (Returned (False, Failed_rename), s)))
      | Some t' \<Rightarrow>
          (let entry = [(''action'', ''rename''), (''old'', str_path p_old), (''new'', str_path p_new)]
                 @ (case overwritten of
                      None \<Rightarrow> []
                    | Some ov \<Rightarrow> [(''overwritten_trash'', str_path ov)])
           in (Returned (True, Renamed old_candidate new_candidate),
               save_config e (set_last entry (s\<lparr>fs := t'\<rparr>)))))"

definition rename_prompt :: "env \<Rightarrow> path \<Rightarrow> string \<Rightarrow> string \<Rightarrow> bool \<Rightarrow> state \<Rightarrow> result" where
  "rename_prompt e root old new force s =
     (let old_candidate = candidate_of old;
          new_candidate = candidate_of new;
          p_old = join_str root old_candidate;
          p_new = join_str root new_candidate
      in if \<not> path_exists e (fs s) p_old then (Returned (False, Not_found old_candidate), s)
         else if path_exists e (fs s) p_new then
           (if \<not> force \<and> \<not> affirmative (answer e) then (Returned (False, Aborted), s)
            else
              (case trash_dir_for (fails e Mkdir_trash) e (fs s) root of
                 None \<Rightarrow> (Raised, s)
               | Some (td, t1) \<Rightarrow>
                   (let overwritten = join_str td (trash_name e p_new) in
                    case move (fails e Move_to_trash) t1 e p_new overwritten of
                      None \<Rightarrow> (Returned (False, Failed_trash_target), s\<lparr>fs := t1\<rparr>)
                    | Some t2 \<Rightarrow>
                        rename_move e old_candidate new_candidate p_old p_new (Some overwritten)
                          (s\<lparr>fs := t2\<rparr>))))
         else rename_move e old_candidate new_candidate p_old p_new None s)"

subsection \<open>undo (lines 186-250)\<close>

text \<open>
  \<open>last.get(k)\<close> for the log entry \<open>last\<close>. A value is truthy when it is present and
  not the empty string; \<open>Path(None)\<close> raises.
\<close>

definition get :: "(string \<times> string) list \<Rightarrow> string \<Rightarrow> string option" where
  "get entry k = map_of entry k"

text \<open>Lines 242-246: the added file goes to the working directory.\<close>

definition undo_add_fallback :: "env \<Rightarrow> path \<Rightarrow> state \<Rightarrow> result" where
  "undo_add_fallback e dest s =
     (let fallback = join_str (Path True (cwd e)) (path_name dest) in
      case move (fails e Move_fallback) (fs s) e dest fallback of
        None \<Rightarrow> (Returned (False, Failed_undo_add), s)
      | Some t' \<Rightarrow>
          (Returned (True, Moved_to (path_name dest) (str_path fallback)),
           save_config e (pop_last (s\<lparr>fs := t'\<rparr>))))"

text \<open>Lines 231-240: the added file goes back to where it came from, if that works.\<close>

definition undo_add_back :: "env \<Rightarrow> path \<Rightarrow> string option \<Rightarrow> state \<Rightarrow> result" where
  "undo_add_back e dest src s =
     (case src of
        None \<Rightarrow> undo_add_fallback e dest s
      | Some x \<Rightarrow>
          (if x = [] then undo_add_fallback e dest s
           else
             (case mkdir_parents (fails e Mkdir_parent) (fs s) (key e (path_parent (Path_of x))) of
                None \<Rightarrow> undo_add_fallback e dest s
              | Some t1 \<Rightarrow>
                  (case move (fails e Move_back) t1 e dest (Path_of x) of
                     None \<Rightarrow> undo_add_fallback e dest (s\<lparr>fs := t1\<rparr>)
                   | Some t2 \<Rightarrow>
                       (Returned (True, Moved_back (path_name dest) x),
                        save_config e (pop_last (s\<lparr>fs := t2\<rparr>)))))))"

text \<open>
  Lines 216-229: the recorded trashed file is moved to \<open>dest\<close>, then \<open>dest\<close> is moved to
  the trash under a name that ends with \<open>.added\<close>.
\<close>

definition undo_add_overwritten :: "env \<Rightarrow> path \<Rightarrow> path \<Rightarrow> state \<Rightarrow> result" where
  "undo_add_overwritten e dest overwritten_p s =
     (case move (fails e Move_restore) (fs s) e overwritten_p dest of
        None \<Rightarrow> (Returned (False, Failed_undo_add), s)
      | Some t1 \<Rightarrow>
          (case trash_dir_for (fails e Mkdir_trash) e t1 (path_parent dest) of
             None \<Rightarrow> (Returned (False, Failed_undo_add), s\<lparr>fs := t1\<rparr>)
           | Some (td, t2) \<Rightarrow>
               (case move (fails e Move_added) t2 e dest
                       (join_str td (trash_name e dest @ ''.added'')) of
                  None \<Rightarrow> (Returned (False, Failed_undo_add), s\<lparr>fs := t2\<rparr>)
                | Some t3 \<Rightarrow>
                    (Returned (True, Restored_overwritten),
                     save_config e (pop_last (s\<lparr>fs := t3\<rparr>))))))"

text \<open>Lines 192-206: a removed file comes back from the trash.\<close>

definition undo_remove :: "env \<Rightarrow> (string \<times> string) list \<Rightarrow> state \<Rightarrow> result" where
  "undo_remove e entry s =
     (case get entry ''trashed'' of
        None \<Rightarrow> (Raised, s)
      | Some tr \<Rightarrow>
          (case get entry ''dest'' of
             None \<Rightarrow> (Raised, s)
           | Some de \<Rightarrow>
               (let trashed = Path_of tr; dest = Path_of de in
                if \<not> path_exists e (fs s) trashed then (Returned (False, Trashed_not_found), s)
                else
                  (case mkdir_parents (fails e Mkdir_parent) (fs s) (key e (path_parent dest)) of
                     None \<Rightarrow> (Returned (False, Failed_restore), s)
                   | Some t1 \<Rightarrow>
                       (case move (fails e Move_restore) t1 e trashed dest of
                          None \<Rightarrow> (Returned (False, Failed_restore), s\<lparr>fs := t1\<rparr>)
                        | Some t2 \<Rightarrow>
                            (Returned (True, Restored (path_name dest)),
                             save_config e (pop_last (s\<lparr>fs := t2\<rparr>))))))))"

text \<open>Lines 208-248: an added file is taken out again.\<close>

definition undo_add :: "env \<Rightarrow> (string \<times> string) list \<Rightarrow> state \<Rightarrow> result" where
  "undo_add e entry s =
     (case get entry ''dest'' of
        None \<Rightarrow> (Raised, s)
      | Some de \<Rightarrow>
          (let dest = Path_of de;
               src = get entry ''src'';
               overwritten = get entry ''overwritten_trash''
           in if \<not> path_exists e (fs s) dest then (Returned (False, Added_not_found), s)
              else
                (case overwritten of
                   None \<Rightarrow> undo_add_back e dest src s
                 | Some ov \<Rightarrow>
                     (if ov \<noteq> [] \<and> path_exists e (fs s) (Path_of ov)
                      then undo_add_overwritten e dest (Path_of ov) s
                      else undo_add_back e dest src s))))"

definition perform_undo :: "env \<Rightarrow> state \<Rightarrow> result" where
  "perform_undo e s =
     (case last_action (cfg s) of
        None \<Rightarrow> (Returned (False, No_action), s)
      | Some entry \<Rightarrow>
          (if entry = [] then (Returned (False, No_action), s)
           else if get entry ''action'' = Some ''remove'' then undo_remove e entry s
           else if get entry ''action'' = Some ''add'' then undo_add e entry s
           else (Returned (False, Unknown_action), s)))"

subsection \<open>A small tree for the examples\<close>

text \<open>
  The root \<open>/r\<close> holds two prompts; the working directory \<open>/home\<close> holds two files
  that are not prompts yet. The log records a removal whose trashed file is gone.
\<close>

definition env0 :: env where
  "env0 = \<lparr>now = 7, answer = codepoints ''n'', cwd = [''home''], fails = (\<lambda>_. False)\<rparr>"

definition root0 :: path where
  "root0 = Path True [''r'']"

definition tree0 :: tree where
  "tree0 = [[] \<mapsto> Dir,
            [''r''] \<mapsto> Dir,
            [''r'', ''a.prompt.md''] \<mapsto> File ''alpha'',
            [''r'', ''b.prompt.md''] \<mapsto> File ''beta'',
            [''home''] \<mapsto> Dir,
            [''home'', ''a''] \<mapsto> File ''new'',
            [''home'', ''notes''] \<mapsto> File ''text'']"

definition cfg0 :: config where
  "cfg0 = \<lparr>cfg_root = Some ''/r'',
           last_action = Some [(''action'', ''remove''), (''dest'', ''/r/x.prompt.md''),
                               (''trashed'', ''/r/.trash/5_x.prompt.md'')]\<rparr>"

definition state0 :: state where
  "state0 = \<lparr>fs = tree0, cfg = cfg0, disk = cfg0\<rparr>"

text \<open>The same tree with the trashed file of the log still in the trash.\<close>

definition tree1 :: tree where
  "tree1 = tree0([''r'', ''.trash''] \<mapsto> Dir,
                 [''r'', ''.trash'', ''5_x.prompt.md''] \<mapsto> File ''xx'')"

definition state1 :: state where
  "state1 = \<lparr>fs = tree1, cfg = cfg0, disk = cfg0\<rparr>"

text \<open>
  Two environments in which the system refuses the move of the source to the
  destination; in the second it refuses the restore from the trash as well. In a third
  one it refuses the move to the trash.
\<close>

definition env_final_refused :: env where
  "env_final_refused = env0\<lparr>fails := (\<lambda>x. x = Move_final)\<rparr>"

definition env_restore_refused :: env where
  "env_restore_refused = env0\<lparr>fails := (\<lambda>x. x = Move_final \<or> x = Move_rollback)\<rparr>"

definition env_trash_refused :: env where
  "env_trash_refused = env0\<lparr>fails := (\<lambda>x. x = Move_to_trash)\<rparr>"

text \<open>
  The state after \<open>/home/a\<close> has been added over \<open>/r/a.prompt.md\<close> at time 7, a later
  environment for the undo, and the state after that undo.
\<close>

definition env8 :: env where
  "env8 = env0\<lparr>now := 8\<rparr>"

definition tree_added :: tree where
  "tree_added = [[] \<mapsto> Dir,
                 [''r''] \<mapsto> Dir,
                 [''r'', ''.trash''] \<mapsto> Dir,
                 [''r'', ''.trash'', ''7_a.prompt.md''] \<mapsto> File ''alpha'',
                 [''r'', ''a.prompt.md''] \<mapsto> File ''new'',
                 [''r'', ''b.prompt.md''] \<mapsto> File ''beta'',
                 [''home''] \<mapsto> Dir,
                 [''home'', ''notes''] \<mapsto> File ''text'']"

definition cfg_added :: config where
  "cfg_added = \<lparr>cfg_root = Some ''/r'',
                 last_action = Some [(''action'', ''add''), (''src'', ''a''),
                                     (''dest'', ''/r/a.prompt.md''),
                                     (''overwritten_trash'', ''/r/.trash/7_a.prompt.md'')]\<rparr>"

definition state_added :: state where
  "state_added = \<lparr>fs = tree_added, cfg = cfg_added, disk = cfg_added\<rparr>"

definition tree_undone :: tree where
  "tree_undone = [[] \<mapsto> Dir,
                  [''r''] \<mapsto> Dir,
                  [''r'', ''.trash''] \<mapsto> Dir,
                  [''r'', ''.trash'', ''8_a.prompt.md.added''] \<mapsto> File ''alpha'',
                  [''r'', ''b.prompt.md''] \<mapsto> File ''beta'',
                  [''home''] \<mapsto> Dir,
                  [''home'', ''notes''] \<mapsto> File ''text'']"

definition state_undone :: state where
  "state_undone = \<lparr>fs = tree_undone, cfg = cfg_added\<lparr>last_action := None\<rparr>,
                    disk = cfg_added\<lparr>last_action := None\<rparr>\<rparr>"

section \<open>Properties\<close>

subsection \<open>Paths and their strings\<close>

lemma split_on_not_Nil: "split_on c s \<noteq> []"
  by (induction s) (auto split: list.splits)

lemma split_on_no_sep: "c \<notin> set s \<Longrightarrow> split_on c s = [s]"
  by (induction s) auto

lemma split_on_parts: "w \<in> set (split_on c s) \<Longrightarrow> c \<notin> set w"
  by (induction s arbitrary: w) (auto split: if_splits list.splits)

lemma split_on_append: "c \<notin> set w \<Longrightarrow> split_on c (w @ c # r) = w # split_on c r"
  by (induction w) auto

lemma split_join:
  "ws \<noteq> [] \<Longrightarrow> list_all (\<lambda>w. c \<notin> set w) ws \<Longrightarrow> split_on c (join_with [c] ws) = ws"
  by (induction "[c]" ws rule: join_with.induct) (auto simp: split_on_no_sep split_on_append)

lemma wf_Path_of: "wf_path (Path_of s)"
  by (auto simp: wf_path_def Path_of_def list_all_iff valid_part_def dest: split_on_parts)

lemma wf_joinpath: "wf_path p \<Longrightarrow> wf_path q \<Longrightarrow> wf_path (joinpath p q)"
  by (auto simp: wf_path_def joinpath_def)

lemma wf_join_str: "wf_path p \<Longrightarrow> wf_path (join_str p s)"
  by (simp add: join_str_def wf_joinpath wf_Path_of)

lemma Path_of_valid: "valid_part w \<Longrightarrow> Path_of w = Path False [w]"
  by (cases w) (auto simp: Path_of_def valid_part_def split_on_no_sep)

lemma join_str_valid: "valid_part w \<Longrightarrow> join_str p w = Path (absolute p) (parts p @ [w])"
  by (simp add: join_str_def joinpath_def Path_of_valid)

lemma key_join_valid: "valid_part w \<Longrightarrow> key e (join_str p w) = key e p @ [w]"
  by (simp add: join_str_valid key_def)

lemma name_join_valid: "valid_part w \<Longrightarrow> path_name (join_str p w) = w"
  by (simp add: join_str_valid path_name_def)

lemma parent_join_valid: "valid_part w \<Longrightarrow> path_parent (join_str p w) = p"
  by (simp add: join_str_valid path_parent_def)

lemma name_no_slash: "wf_path p \<Longrightarrow> CHR ''/'' \<notin> set (path_name p)"
  by (auto simp: wf_path_def path_name_def list_all_iff valid_part_def)

lemma digit_no_slash: "d < 10 \<Longrightarrow> digit_char d \<noteq> CHR ''/''"
proof -
  assume "d < 10"
  then have "d \<in> {0,1,2,3,4,5,6,7,8,9}" by auto
  then show ?thesis by (auto simp: digit_char_def)
qed

lemma str_nat_no_slash: "CHR ''/'' \<notin> set (str_nat n)"
proof (induction n rule: str_nat.induct)
  case (1 n)
  show ?case
  proof (cases "n < 10")
    case True
    then show ?thesis using digit_no_slash[of n] by (subst str_nat.simps) auto
  next
    case False
    then show ?thesis using 1 digit_no_slash[of "n mod 10"] by (subst str_nat.simps) auto
  qed
qed

lemma str_nat_not_Nil: "str_nat n \<noteq> []"
  by (subst str_nat.simps) simp

lemma valid_trash_name: "wf_path p \<Longrightarrow> valid_part (trash_name e p)"
  using str_nat_not_Nil[of "now e"] str_nat_no_slash[of "now e"] name_no_slash[of p]
  by (cases "str_nat (now e)") (auto simp: valid_part_def trash_name_def)

lemma valid_dot_trash: "valid_part ''.trash''"
  by (simp add: valid_part_def)

lemma join_with_Cons: "join_with sep ((x # w) # ws) = x # join_with sep (w # ws)"
  by (cases ws) simp_all

lemma join_with_hd: "ws \<noteq> [] \<Longrightarrow> hd ws \<noteq> [] \<Longrightarrow> take 1 (join_with sep ws) = [hd (hd ws)]"
  by (cases ws; cases "hd ws") (simp_all add: join_with_Cons)

lemma filter_valid:
  "list_all valid_part ws \<Longrightarrow> filter (\<lambda>w. w \<noteq> [] \<and> w \<noteq> ''.'') ws = ws"
  by (induction ws) (auto simp: valid_part_def)

lemma valid_no_slash: "list_all valid_part ws \<Longrightarrow> list_all (\<lambda>w. CHR ''/'' \<notin> set w) ws"
  by (induction ws) (auto simp: valid_part_def)

lemma Path_of_str: "wf_path p \<Longrightarrow> Path_of (str_path p) = p"
proof (cases p)
  case (Path a ws)
  assume "wf_path p"
  then have v: "list_all valid_part ws" using Path by (simp add: wf_path_def)
  show ?thesis
  proof (cases "ws = []")
    case True
    then show ?thesis using Path by (simp add: Path_of_def str_path_def)
  next
    case False
    have sp: "split_on (CHR ''/'') (join_with ''/'' ws) = ws"
      using split_join[OF False valid_no_slash[OF v]] by simp
    have h: "hd ws \<noteq> [] \<and> hd (hd ws) \<noteq> CHR ''/''"
      using False v by (cases ws; cases "hd ws") (auto simp: valid_part_def)
    then have tk: "take 1 (join_with ''/'' ws) \<noteq> ''/''"
      using join_with_hd[OF False, of "''/''"] by simp
    show ?thesis
      using Path False sp tk filter_valid[OF v]
      by (cases a) (simp_all add: Path_of_def str_path_def)
  qed
qed

subsection \<open>Failure leaves the configuration alone\<close>

lemma save_config_fs [simp]: "fs (save_config e s) = fs s"
  by (simp add: save_config_def)

lemma save_config_cfg [simp]: "cfg (save_config e s) = cfg s"
  by (simp add: save_config_def)

lemma succeeded_simps [simp]:
  "succeeded Raised = False" "succeeded (Returned (ok, m)) = ok"
  by (simp_all add: succeeded_def)

lemma add_move_failure:
  "add_move e src base dest ot s = (r, s') \<Longrightarrow> \<not> succeeded r \<Longrightarrow> cfg s' = cfg s \<and> disk s' = disk s"
  by (auto simp: add_move_def  Let_def split: option.splits if_splits)

lemma add_file_failure:
  "add_file e root src force s = (r, s') \<Longrightarrow> \<not> succeeded r \<Longrightarrow> cfg s' = cfg s \<and> disk s' = disk s"
  by (auto simp: add_file_def  Let_def split: option.splits if_splits prod.splits
           dest: add_move_failure)

lemma remove_prompt_failure:
  "remove_prompt e root name yes s = (r, s') \<Longrightarrow> \<not> succeeded r \<Longrightarrow> cfg s' = cfg s \<and> disk s' = disk s"
  by (auto simp: remove_prompt_def  Let_def split: option.splits if_splits prod.splits)

lemma rename_move_failure:
  "rename_move e oc nc p_old p_new ov s = (r, s') \<Longrightarrow> \<not> succeeded r \<Longrightarrow> cfg s' = cfg s \<and> disk s' = disk s"
  by (auto simp: rename_move_def  Let_def split: option.splits if_splits)

lemma rename_prompt_failure:
  "rename_prompt e root old new force s = (r, s') \<Longrightarrow> \<not> succeeded r \<Longrightarrow> cfg s' = cfg s \<and> disk s' = disk s"
  by (auto simp: rename_prompt_def  Let_def split: option.splits if_splits prod.splits
           dest: rename_move_failure)

lemma undo_add_fallback_failure:
  "undo_add_fallback e dest s = (r, s') \<Longrightarrow> \<not> succeeded r \<Longrightarrow> cfg s' = cfg s \<and> disk s' = disk s"
  by (auto simp: undo_add_fallback_def  Let_def split: option.splits if_splits)

lemma undo_add_back_failure:
  "undo_add_back e dest src s = (r, s') \<Longrightarrow> \<not> succeeded r \<Longrightarrow> cfg s' = cfg s \<and> disk s' = disk s"
  by (auto simp: undo_add_back_def  Let_def split: option.splits if_splits
           dest: undo_add_fallback_failure)

lemma undo_add_overwritten_failure:
  "undo_add_overwritten e dest ov s = (r, s') \<Longrightarrow> \<not> succeeded r \<Longrightarrow> cfg s' = cfg s \<and> disk s' = disk s"
  by (auto simp: undo_add_overwritten_def  Let_def split: option.splits if_splits prod.splits)

lemma undo_remove_failure:
  "undo_remove e entry s = (r, s') \<Longrightarrow> \<not> succeeded r \<Longrightarrow> cfg s' = cfg s \<and> disk s' = disk s"
  by (auto simp: undo_remove_def  Let_def split: option.splits if_splits)

lemma undo_add_failure:
  "undo_add e entry s = (r, s') \<Longrightarrow> \<not> succeeded r \<Longrightarrow> cfg s' = cfg s \<and> disk s' = disk s"
  by (auto simp: undo_add_def Let_def split: option.splits if_splits
           dest: undo_add_back_failure undo_add_overwritten_failure)

lemma perform_undo_failure:
  "perform_undo e s = (r, s') \<Longrightarrow> \<not> succeeded r \<Longrightarrow> cfg s' = cfg s \<and> disk s' = disk s"
  by (auto simp: perform_undo_def split: option.splits if_splits
           dest: undo_remove_failure undo_add_failure)

subsection \<open>What a successful call leaves in the log\<close>

lemma pop_last_simps [simp]:
  "last_action (cfg (pop_last s)) = None" "fs (pop_last s) = fs s" "disk (pop_last s) = disk s"
  by (simp_all add: pop_last_def)

lemma set_last_simps [simp]:
  "last_action (cfg (set_last en s)) = Some en" "fs (set_last en s) = fs s"
  "disk (set_last en s) = disk s" "cfg_root (cfg (set_last en s)) = cfg_root (cfg s)"
  by (simp_all add: set_last_def)

lemma save_config_disk: "\<not> fails e Write_config \<Longrightarrow> disk (save_config e s) = cfg s"
  by (simp add: save_config_def)

lemma undo_add_fallback_success:
  "undo_add_fallback e dest s = (Returned (True, m), s') \<Longrightarrow>
     last_action (cfg s') = None \<and> (\<not> fails e Write_config \<longrightarrow> disk s' = cfg s')"
  by (auto simp: undo_add_fallback_def Let_def save_config_disk split: option.splits)

lemma undo_add_back_success:
  "undo_add_back e dest src s = (Returned (True, m), s') \<Longrightarrow>
     last_action (cfg s') = None \<and> (\<not> fails e Write_config \<longrightarrow> disk s' = cfg s')"
  by (auto simp: undo_add_back_def save_config_disk split: option.splits if_splits
           dest: undo_add_fallback_success)

lemma undo_add_overwritten_success:
  "undo_add_overwritten e dest ov s = (Returned (True, m), s') \<Longrightarrow>
     last_action (cfg s') = None \<and> (\<not> fails e Write_config \<longrightarrow> disk s' = cfg s')"
  by (auto simp: undo_add_overwritten_def save_config_disk split: option.splits prod.splits)

lemma undo_remove_success:
  "undo_remove e entry s = (Returned (True, m), s') \<Longrightarrow>
     last_action (cfg s') = None \<and> (\<not> fails e Write_config \<longrightarrow> disk s' = cfg s')"
  by (auto simp: undo_remove_def Let_def save_config_disk split: option.splits if_splits)

lemma undo_add_success:
  "undo_add e entry s = (Returned (True, m), s') \<Longrightarrow>
     last_action (cfg s') = None \<and> (\<not> fails e Write_config \<longrightarrow> disk s' = cfg s')"
  by (auto simp: undo_add_def Let_def split: option.splits if_splits
           dest: undo_add_back_success undo_add_overwritten_success)

lemma perform_undo_success:
  "perform_undo e s = (Returned (True, m), s') \<Longrightarrow>
     last_action (cfg s') = None \<and> (\<not> fails e Write_config \<longrightarrow> disk s' = cfg s')"
  by (auto simp: perform_undo_def split: option.splits if_splits
           dest: undo_remove_success undo_add_success)

lemma perform_undo_empty:
  "last_action (cfg s) = None \<or> last_action (cfg s) = Some [] \<Longrightarrow>
     perform_undo e s = (Returned (False, No_action), s)"
  by (auto simp: perform_undo_def)

lemma endswith_append: "endswith (s @ suf) suf"
  by (simp add: endswith_def)

lemma endswith_length: "endswith s suf \<Longrightarrow> length suf \<le> length s"
  by (simp add: endswith_def)

lemma add_base_endswith: "endswith (add_base src) SUFFIX"
  by (simp add: add_base_def endswith_append)

lemma valid_add_base: "wf_path src \<Longrightarrow> valid_part (add_base src)"
proof -
  assume "wf_path src"
  then have ns: "CHR ''/'' \<notin> set (path_name src)" by (rule name_no_slash)
  have "10 \<le> length (add_base src)"
    using endswith_length[OF add_base_endswith, of src] by (simp add: SUFFIX_def)
  then have "add_base src \<noteq> [] \<and> add_base src \<noteq> ''.''" by auto
  moreover have "CHR ''/'' \<notin> set (add_base src)"
    using ns by (auto simp: add_base_def SUFFIX_def)
  ultimately show ?thesis by (simp add: valid_part_def)
qed

lemma add_move_success:
  "add_move e src base dest ot s = (Returned (True, m), s') \<Longrightarrow>
     m = Added base (if endswith base SUFFIX then take (length base - length SUFFIX) base else base) \<and>
     (\<exists>en. last_action (cfg s') = Some en \<and> get en ''action'' = Some ''add'' \<and>
           get en ''src'' = Some (str_path src) \<and> get en ''dest'' = Some (str_path dest) \<and>
           get en ''overwritten_trash'' = map_option str_path ot)"
  by (auto simp: add_move_def Let_def get_def split: option.splits if_splits)

lemma add_file_success:
  "add_file e root src force s = (Returned (True, m), s') \<Longrightarrow>
     m = Added (add_base src) (take (length (add_base src) - length SUFFIX) (add_base src)) \<and>
     (\<exists>en. last_action (cfg s') = Some en \<and> get en ''action'' = Some ''add'' \<and>
           get en ''src'' = Some (str_path src) \<and>
           get en ''dest'' = Some (str_path (join_str root (add_base src))))"
  by (auto simp: add_file_def Let_def add_base_endswith split: option.splits if_splits prod.splits
           dest!: add_move_success)

lemma rename_move_success:
  "rename_move e oc nc p_old p_new ov s = (Returned (True, m), s') \<Longrightarrow>
     m = Renamed oc nc \<and>
     last_action (cfg s') =
       Some ([(''action'', ''rename''), (''old'', str_path p_old), (''new'', str_path p_new)]
             @ (case ov of None \<Rightarrow> [] | Some t \<Rightarrow> [(''overwritten_trash'', str_path t)]))"
  by (auto simp: rename_move_def Let_def split: option.splits if_splits)

lemma rename_prompt_action:
  "rename_prompt e root old new force s = (Returned (True, m), s') \<Longrightarrow>
     \<exists>en. last_action (cfg s') = Some en \<and> en \<noteq> [] \<and> get en ''action'' = Some ''rename''"
  by (auto simp: rename_prompt_def Let_def get_def split: option.splits if_splits prod.splits
           dest!: rename_move_success)

lemma perform_undo_unknown:
  "last_action (cfg s) = Some entry \<Longrightarrow> entry \<noteq> [] \<Longrightarrow>
   get entry ''action'' \<noteq> Some ''remove'' \<Longrightarrow> get entry ''action'' \<noteq> Some ''add'' \<Longrightarrow>
   perform_undo e s = (Returned (False, Unknown_action), s)"
  by (simp add: perform_undo_def)

subsection \<open>Moves and directories\<close>

lemma move_file_result:
  assumes "move refused t e src dst = Some t'"
    and "t (key e src) = Some (File c)"
    and "t (key e dst) \<noteq> Some Dir"
  shows "t' = (t(key e src := None))(key e dst \<mapsto> File c)"
proof (cases "key e src = key e dst")
  case True
  then have "t' = t" using assms by (simp add: move_def Let_def split: if_splits)
  moreover have "(t(key e src := None))(key e dst \<mapsto> File c) = t"
    using True assms(2) by auto
  ultimately show ?thesis by simp
next
  case False
  then show ?thesis using assms by (simp add: move_def Let_def split: if_splits)
qed

lemma move_file_ok:
  assumes "\<not> refused"
    and "t (key e src) = Some (File c)"
    and "t (key e dst) \<noteq> Some Dir"
  shows "move refused t e src dst \<noteq> None"
  using assms by (auto simp: move_def Let_def)

lemma move_needs_source: "move refused t e src dst = Some t' \<Longrightarrow> t (key e src) \<noteq> None"
  by (auto simp: move_def Let_def split: if_splits option.splits node.splits)

lemma mkdir_parents_result:
  assumes "mkdir_parents refused t k = Some t'"
  shows "t' = (\<lambda>q. if prefix q k then Some Dir else t q)"
    and "t q = Some (File c) \<Longrightarrow> t' q = Some (File c)"
    and "t' k = Some Dir"
proof -
  from assms show r: "t' = (\<lambda>q. if prefix q k then Some Dir else t q)"
    by (simp add: mkdir_parents_def split: if_splits)
  from assms have nf: "\<not> list_ex (is_file t) (prefixes k)"
    by (simp add: mkdir_parents_def split: if_splits)
  show "t' q = Some (File c)" if f: "t q = Some (File c)"
  proof -
    have "is_file t q" using f by (simp add: is_file_def)
    then have "\<not> prefix q k" using nf by (auto simp: list_ex_iff)
    then show ?thesis using r f by simp
  qed
  show "t' k = Some Dir" using r by simp
qed

lemma mkdir_parents_longer:
  "mkdir_parents refused t k = Some t' \<Longrightarrow> length k < length q \<Longrightarrow> t' q = t q"
  using prefix_length_le[of q k] by (auto simp: mkdir_parents_def split: if_splits)

lemma mkdir_keeps_files_apart:
  "mkdir_parents refused t k = Some t' \<Longrightarrow> t q = Some (File c) \<Longrightarrow> q \<noteq> k"
proof
  assume mk: "mkdir_parents refused t k = Some t'" and f: "t q = Some (File c)" and "q = k"
  then show False
    using mkdir_parents_result(2)[OF mk f] mkdir_parents_result(3)[OF mk] by simp
qed

lemma trash_dir_for_result:
  assumes "trash_dir_for refused e t root = Some (td, t')"
  shows "td = join_str root ''.trash''"
    and "mkdir_parents refused t (key e root @ [''.trash'']) = Some t'"
  using assms
  by (auto simp: trash_dir_for_def Let_def key_join_valid valid_dot_trash split: option.splits)

subsection \<open>Names of prompts\<close>

lemma split_on_suffix:
  "c \<notin> set suf \<Longrightarrow>
     split_on c (pre @ suf) = butlast (split_on c pre) @ [last (split_on c pre) @ suf]"
proof (induction pre)
  case Nil
  then show ?case by (simp add: split_on_no_sep)
next
  case (Cons x pre)
  then show ?case
    using split_on_not_Nil[of c pre]
    by (cases "split_on c pre") (auto split: list.splits)
qed

lemma endswith_split: "endswith s suf \<Longrightarrow> \<exists>pre. s = pre @ suf"
  by (metis append_take_drop_id endswith_def)

lemma parts_with_suffix:
  assumes "endswith s SUFFIX"
  shows "parts (Path_of s) \<noteq> []"
proof -
  from endswith_split[OF assms] obtain pre where s: "s = pre @ SUFFIX" by blast
  have ns: "CHR ''/'' \<notin> set SUFFIX" by (simp add: SUFFIX_def)
  define w where "w = last (split_on (CHR ''/'') pre) @ SUFFIX"
  have "10 \<le> length w" by (simp add: w_def SUFFIX_def)
  then have ok: "w \<noteq> [] \<and> w \<noteq> ''.''" by auto
  have "split_on (CHR ''/'') s = butlast (split_on (CHR ''/'') pre) @ [w]"
    unfolding s w_def by (rule split_on_suffix[OF ns])
  then show ?thesis using ok by (simp add: Path_of_def)
qed

lemma candidate_endswith: "endswith (candidate_of name) SUFFIX"
  by (simp add: candidate_of_def endswith_append)

lemma parts_join_nonempty: "parts (Path_of s) \<noteq> [] \<Longrightarrow> parts (join_str root s) \<noteq> []"
  by (simp add: join_str_def joinpath_def)

lemma parts_candidate: "parts (join_str root (candidate_of name)) \<noteq> []"
  by (simp add: parts_join_nonempty parts_with_suffix candidate_endswith)

lemma key_last: "parts p \<noteq> [] \<Longrightarrow> key e p \<noteq> [] \<and> last (key e p) = path_name p"
  by (simp add: key_def path_name_def)

lemma key_parent: "parts p \<noteq> [] \<Longrightarrow> key e p = key e (path_parent p) @ [path_name p]"
  by (simp add: key_def path_parent_def path_name_def)

lemma trash_name_longer: "length (path_name p) < length (trash_name e p)"
  by (simp add: trash_name_def)

lemma absolute_join_str: "absolute root \<Longrightarrow> absolute (join_str root s)"
  by (simp add: join_str_def joinpath_def)

lemma key_same:
  "absolute p \<or> cwd e2 = cwd e \<Longrightarrow> key e2 p = key e p"
  by (auto simp: key_def)

lemma candidate_flat:
  "CHR ''/'' \<notin> set name \<Longrightarrow> valid_part (candidate_of name)"
proof -
  assume ns: "CHR ''/'' \<notin> set name"
  have "10 \<le> length (candidate_of name)"
    using endswith_length[OF candidate_endswith, of name] by (simp add: SUFFIX_def)
  then have "candidate_of name \<noteq> [] \<and> candidate_of name \<noteq> ''.''" by auto
  moreover have "CHR ''/'' \<notin> set (candidate_of name)"
    using ns by (auto simp: candidate_of_def SUFFIX_def)
  ultimately show ?thesis by (simp add: valid_part_def)
qed

subsection \<open>What a successful mutation leaves in the tree\<close>

lemma key_trashed:
  "wf_path p \<Longrightarrow>
   key e' (join_str (join_str root ''.trash'') (trash_name e p))
     = key e' root @ [''.trash'', trash_name e p]"
  by (simp add: key_join_valid valid_trash_name valid_dot_trash)

lemma remove_prompt_success:
  fixes root name e
  defines "p \<equiv> join_str root (candidate_of name)"
  defines "trashed \<equiv> join_str (join_str root ''.trash'') (trash_name e p)"
  assumes ok: "remove_prompt e root name yes s = (Returned (True, m), s1)"
    and isfile: "fs s (key e p) = Some (File bytes)"
    and nodir: "fs s (key e trashed) \<noteq> Some Dir"
    and wf: "wf_path root"
  shows "\<exists>t1. mkdir_parents (fails e Mkdir_trash) (fs s) (key e root @ [''.trash'']) = Some t1 \<and>
              fs s1 = (t1(key e p := None))(key e trashed \<mapsto> File bytes)"
    and "last_action (cfg s1) = Some [(''action'', ''remove''), (''dest'', str_path p),
                                       (''trashed'', str_path trashed)]"
    and "m = Removed (candidate_of name)"
proof -
  have wfp: "wf_path p" unfolding p_def by (rule wf_join_str[OF wf])
  have ktr: "key e trashed = key e root @ [''.trash'', trash_name e p]"
    unfolding trashed_def by (rule key_trashed[OF wfp])
  from ok obtain td t1 t2 where
    td: "trash_dir_for (fails e Mkdir_trash) e (fs s) root = Some (td, t1)"
    and mv: "move (fails e Move_to_trash) t1 e p (join_str td (trash_name e p)) = Some t2"
    and s1: "s1 = save_config e (set_last [(''action'', ''remove''), (''dest'', str_path p),
                 (''trashed'', str_path (join_str td (trash_name e p)))] (s\<lparr>fs := t2\<rparr>))"
    and m: "m = Removed (candidate_of name)"
    by (auto simp: remove_prompt_def Let_def p_def split: if_splits option.splits prod.splits)
  from trash_dir_for_result[OF td] have tdeq: "td = join_str root ''.trash''"
    and mk: "mkdir_parents (fails e Mkdir_trash) (fs s) (key e root @ [''.trash'']) = Some t1"
    by simp_all
  have f1: "t1 (key e p) = Some (File bytes)"
    using mkdir_parents_result(2)[OF mk isfile] .
  have "t1 (key e trashed) = fs s (key e trashed)"
    using mkdir_parents_longer[OF mk, of "key e trashed"] ktr by simp
  then have nd1: "t1 (key e trashed) \<noteq> Some Dir" using nodir by simp
  have "t2 = (t1(key e p := None))(key e trashed \<mapsto> File bytes)"
    using move_file_result[OF mv[unfolded tdeq, folded trashed_def] f1 nd1] .
  then show "\<exists>t1. mkdir_parents (fails e Mkdir_trash) (fs s) (key e root @ [''.trash'']) = Some t1 \<and>
              fs s1 = (t1(key e p := None))(key e trashed \<mapsto> File bytes)"
    using mk s1 by simp
  show "last_action (cfg s1) = Some [(''action'', ''remove''), (''dest'', str_path p),
                                       (''trashed'', str_path trashed)]"
    using s1 tdeq by (simp add: trashed_def)
  show "m = Removed (candidate_of name)" by (rule m)
qed

lemma remove_prompt_trash_dir:
  assumes ok: "remove_prompt e root name yes s = (Returned (True, m), s1)"
    and isfile: "fs s (key e (join_str root (candidate_of name))) = Some (File bytes)"
    and nodir: "fs s (key e (join_str (join_str root ''.trash'')
                  (trash_name e (join_str root (candidate_of name))))) \<noteq> Some Dir"
    and wf: "wf_path root"
  shows "fs s1 (key e root @ [''.trash'', trash_name e (join_str root (candidate_of name))])
           = Some (File bytes)"
    and "fs s1 (key e root @ [''.trash'']) = Some Dir"
proof -
  define p where "p = join_str root (candidate_of name)"
  have wfp: "wf_path p" unfolding p_def by (rule wf_join_str[OF wf])
  note ktr = key_trashed[OF wfp, of e root e]
  from remove_prompt_success(1)[OF ok isfile nodir wf] obtain t1 where
    mk: "mkdir_parents (fails e Mkdir_trash) (fs s) (key e root @ [''.trash'']) = Some t1"
    and fs1: "fs s1 = (t1(key e p := None))
                (key e root @ [''.trash'', trash_name e p] \<mapsto> File bytes)"
    unfolding p_def[symmetric] ktr by blast
  show "fs s1 (key e root @ [''.trash'', trash_name e (join_str root (candidate_of name))])
           = Some (File bytes)"
    using fs1 by (simp add: p_def)
  have "key e root @ [''.trash''] \<noteq> key e p"
    using mkdir_keeps_files_apart[OF mk isfile] by (simp add: p_def)
  then show "fs s1 (key e root @ [''.trash'']) = Some Dir"
    using fs1 mkdir_parents_result(3)[OF mk] by simp
qed

lemma add_file_overwrite_success:
  fixes root src e
  defines "dest \<equiv> join_str root (add_base src)"
  defines "trashed \<equiv> join_str (join_str root ''.trash'') (trash_name e dest)"
  assumes ok: "add_file e root src force s = (Returned (True, m), s1)"
    and wf: "wf_path root" and wfs: "wf_path src" and named: "parts src \<noteq> []"
    and srcfile: "fs s (key e src) = Some (File new)"
    and destfile: "fs s (key e dest) = Some (File old)"
    and nodir: "fs s (key e trashed) \<noteq> Some Dir"
  shows "fs s1 (key e trashed) = Some (File old)"
    and "fs s1 (key e dest) = Some (File new)"
    and "fs s1 (key e root @ [''.trash'']) = Some Dir"
    and "key e src \<noteq> key e dest \<and> fs s1 (key e src) = None"
    and "last_action (cfg s1) = Some [(''action'', ''add''), (''src'', str_path src),
            (''dest'', str_path dest), (''overwritten_trash'', str_path trashed)]"
proof -
  have vb: "valid_part (add_base src)" by (rule valid_add_base[OF wfs])
  have wfd: "wf_path dest" unfolding dest_def by (rule wf_join_str[OF wf])
  have kd: "key e dest = key e root @ [add_base src]"
    unfolding dest_def by (rule key_join_valid[OF vb])
  have nd: "path_name dest = add_base src"
    unfolding dest_def by (rule name_join_valid[OF vb])
  have ktr: "key e trashed = key e root @ [''.trash'', trash_name e dest]"
    unfolding trashed_def by (rule key_trashed[OF wfd])
  have ne1: "key e trashed \<noteq> key e dest" using kd ktr by simp
  have "length (path_name src) \<le> length (add_base src)" by (simp add: add_base_def)
  then have "trash_name e dest \<noteq> path_name src"
    using trash_name_longer[of dest e] nd by auto
  then have ne2: "key e trashed \<noteq> key e src"
    using key_last[OF named, of e] ktr by (metis last.simps last_appendR list.distinct(1))
  have ex: "path_exists e (fs s) src" "path_exists e (fs s) dest"
    using srcfile destfile by (simp_all add: path_exists_def)
  from ok ex obtain td t1 t2 where
    td: "trash_dir_for (fails e Mkdir_trash) e (fs s) root = Some (td, t1)"
    and mv: "move (fails e Move_to_trash) t1 e dest (join_str td (trash_name e dest)) = Some t2"
    and fin: "add_move e src (add_base src) dest (Some (join_str td (trash_name e dest)))
                (s\<lparr>fs := t2\<rparr>) = (Returned (True, m), s1)"
    by (auto simp: add_file_def Let_def dest_def split: if_splits option.splits prod.splits)
  from trash_dir_for_result[OF td] have tdeq: "td = join_str root ''.trash''"
    and mk: "mkdir_parents (fails e Mkdir_trash) (fs s) (key e root @ [''.trash'']) = Some t1"
    by simp_all
  have d1: "t1 (key e dest) = Some (File old)" by (rule mkdir_parents_result(2)[OF mk destfile])
  have s1': "t1 (key e src) = Some (File new)" by (rule mkdir_parents_result(2)[OF mk srcfile])
  have "t1 (key e trashed) = fs s (key e trashed)"
    using mkdir_parents_longer[OF mk, of "key e trashed"] ktr by simp
  then have nd1: "t1 (key e trashed) \<noteq> Some Dir" using nodir by simp
  have t2: "t2 = (t1(key e dest := None))(key e trashed \<mapsto> File old)"
    using move_file_result[OF mv[unfolded tdeq, folded trashed_def] d1 nd1] .
  from fin obtain t3 where
    mv2: "move (fails e Move_final) t2 e src dest = Some t3"
    and s1: "s1 = save_config e (set_last ([(''action'', ''add''), (''src'', str_path src),
                (''dest'', str_path dest)] @ [(''overwritten_trash'', str_path trashed)])
                (s\<lparr>fs := t3\<rparr>))"
    by (auto simp: add_move_def Let_def tdeq trashed_def split: option.splits if_splits)
  have ne3: "key e src \<noteq> key e dest"
    using move_needs_source[OF mv2] t2 ne1 by auto
  have src2: "t2 (key e src) = Some (File new)" using t2 s1' ne2 ne3 by simp
  have dst2: "t2 (key e dest) \<noteq> Some Dir" using t2 ne1 by simp
  have t3: "t3 = (t2(key e src := None))(key e dest \<mapsto> File new)"
    by (rule move_file_result[OF mv2 src2 dst2])
  have fs1: "fs s1 = t3" using s1 by simp
  show "fs s1 (key e trashed) = Some (File old)" using fs1 t3 t2 ne1 ne2 by simp
  show "fs s1 (key e dest) = Some (File new)" using fs1 t3 by simp
  have "key e root @ [''.trash''] \<noteq> key e src"
    using mkdir_keeps_files_apart[OF mk srcfile] by simp
  moreover have "key e root @ [''.trash''] \<noteq> key e dest"
    using mkdir_keeps_files_apart[OF mk destfile] by simp
  moreover have "key e root @ [''.trash''] \<noteq> key e trashed" using ktr by simp
  ultimately show "fs s1 (key e root @ [''.trash'']) = Some Dir"
    using fs1 t3 t2 mkdir_parents_result(3)[OF mk] by simp
  show "key e src \<noteq> key e dest \<and> fs s1 (key e src) = None" using fs1 t3 ne3 by simp
  show "last_action (cfg s1) = Some [(''action'', ''add''), (''src'', str_path src),
            (''dest'', str_path dest), (''overwritten_trash'', str_path trashed)]"
    using s1 by simp
qed

lemma rename_overwrite_success:
  fixes root old new e
  defines "p_old \<equiv> join_str root (candidate_of old)"
  defines "p_new \<equiv> join_str root (candidate_of new)"
  defines "trashed \<equiv> join_str (join_str root ''.trash'') (trash_name e p_new)"
  assumes ok: "rename_prompt e root old new force s = (Returned (True, m), s1)"
    and wf: "wf_path root" and flat: "CHR ''/'' \<notin> set old"
    and oldfile: "fs s (key e p_old) = Some (File a)"
    and newfile: "fs s (key e p_new) = Some (File b)"
    and nodir: "fs s (key e trashed) \<noteq> Some Dir"
  shows "fs s1 (key e trashed) = Some (File b)"
    and "fs s1 (key e p_new) = Some (File a)"
    and "fs s1 (key e root @ [''.trash'']) = Some Dir"
    and "fs s1 (key e p_old) = None"
    and "last_action (cfg s1) = Some [(''action'', ''rename''), (''old'', str_path p_old),
            (''new'', str_path p_new), (''overwritten_trash'', str_path trashed)]"
    and "\<not> fails e Write_config \<Longrightarrow> disk s1 = cfg s1"
proof -
  have wfn: "wf_path p_new" unfolding p_new_def by (rule wf_join_str[OF wf])
  have ko: "key e p_old = key e root @ [candidate_of old]"
    unfolding p_old_def by (rule key_join_valid[OF candidate_flat[OF flat]])
  have ktr: "key e trashed = key e root @ [''.trash'', trash_name e p_new]"
    unfolding trashed_def by (rule key_trashed[OF wfn])
  have ne2: "key e trashed \<noteq> key e p_old" using ko ktr by simp
  have pn: "parts p_new \<noteq> []" unfolding p_new_def by (rule parts_candidate)
  have "trash_name e p_new \<noteq> path_name p_new"
    using trash_name_longer[of p_new e] by auto
  then have ne1: "key e trashed \<noteq> key e p_new"
    using key_last[OF pn, of e] ktr by (metis last.simps last_appendR list.distinct(1))
  have ex: "path_exists e (fs s) p_old" "path_exists e (fs s) p_new"
    using oldfile newfile by (simp_all add: path_exists_def)
  from ok ex obtain td t1 t2 where
    td: "trash_dir_for (fails e Mkdir_trash) e (fs s) root = Some (td, t1)"
    and mv: "move (fails e Move_to_trash) t1 e p_new (join_str td (trash_name e p_new)) = Some t2"
    and fin: "rename_move e (candidate_of old) (candidate_of new) p_old p_new
                (Some (join_str td (trash_name e p_new))) (s\<lparr>fs := t2\<rparr>) = (Returned (True, m), s1)"
    by (auto simp: rename_prompt_def Let_def p_old_def p_new_def
             split: if_splits option.splits prod.splits)
  from trash_dir_for_result[OF td] have tdeq: "td = join_str root ''.trash''"
    and mk: "mkdir_parents (fails e Mkdir_trash) (fs s) (key e root @ [''.trash'']) = Some t1"
    by simp_all
  have n1: "t1 (key e p_new) = Some (File b)" by (rule mkdir_parents_result(2)[OF mk newfile])
  have o1: "t1 (key e p_old) = Some (File a)" by (rule mkdir_parents_result(2)[OF mk oldfile])
  have "t1 (key e trashed) = fs s (key e trashed)"
    using mkdir_parents_longer[OF mk, of "key e trashed"] ktr by simp
  then have nd1: "t1 (key e trashed) \<noteq> Some Dir" using nodir by simp
  have t2: "t2 = (t1(key e p_new := None))(key e trashed \<mapsto> File b)"
    using move_file_result[OF mv[unfolded tdeq, folded trashed_def] n1 nd1] .
  from fin obtain t3 where
    mv2: "move (fails e Move_final) t2 e p_old p_new = Some t3"
    and s1: "s1 = save_config e (set_last ([(''action'', ''rename''), (''old'', str_path p_old),
                (''new'', str_path p_new)] @ [(''overwritten_trash'', str_path trashed)])
                (s\<lparr>fs := t3\<rparr>))"
    by (auto simp: rename_move_def Let_def tdeq trashed_def split: option.splits if_splits)
  have ne3: "key e p_old \<noteq> key e p_new"
    using move_needs_source[OF mv2] t2 ne1 by auto
  have src2: "t2 (key e p_old) = Some (File a)" using t2 o1 ne2 ne3 by simp
  have dst2: "t2 (key e p_new) \<noteq> Some Dir" using t2 ne1 by simp
  have t3: "t3 = (t2(key e p_old := None))(key e p_new \<mapsto> File a)"
    by (rule move_file_result[OF mv2 src2 dst2])
  have fs1: "fs s1 = t3" using s1 by simp
  show "fs s1 (key e trashed) = Some (File b)" using fs1 t3 t2 ne1 ne2 by simp
  show "fs s1 (key e p_new) = Some (File a)" using fs1 t3 by simp
  have "key e root @ [''.trash''] \<noteq> key e p_old"
    using mkdir_keeps_files_apart[OF mk oldfile] by simp
  moreover have "key e root @ [''.trash''] \<noteq> key e p_new"
    using mkdir_keeps_files_apart[OF mk newfile] by simp
  moreover have "key e root @ [''.trash''] \<noteq> key e trashed" using ktr by simp
  ultimately show "fs s1 (key e root @ [''.trash'']) = Some Dir"
    using fs1 t3 t2 mkdir_parents_result(3)[OF mk] by simp
  show "fs s1 (key e p_old) = None" using fs1 t3 ne3 by simp
  show "last_action (cfg s1) = Some [(''action'', ''rename''), (''old'', str_path p_old),
            (''new'', str_path p_new), (''overwritten_trash'', str_path trashed)]"
    using s1 by simp
  show "disk s1 = cfg s1" if "\<not> fails e Write_config"
    using s1 that by (simp add: save_config_disk)
qed

subsection \<open>Undo of a removal\<close>

lemma undo_remove_entry:
  assumes "last_action (cfg s) = Some [(''action'', ''remove''), (''dest'', str_path p),
                                         (''trashed'', str_path trashed)]"
    and "wf_path p" and "wf_path trashed"
  shows "perform_undo e s =
     (if \<not> path_exists e (fs s) trashed then (Returned (False, Trashed_not_found), s)
      else
        (case mkdir_parents (fails e Mkdir_parent) (fs s) (key e (path_parent p)) of
           None \<Rightarrow> (Returned (False, Failed_restore), s)
         | Some t1 \<Rightarrow>
             (case move (fails e Move_restore) t1 e trashed p of
                None \<Rightarrow> (Returned (False, Failed_restore), s\<lparr>fs := t1\<rparr>)
              | Some t2 \<Rightarrow>
                  (Returned (True, Restored (path_name p)),
                   save_config e (pop_last (s\<lparr>fs := t2\<rparr>))))))"
  using assms by (simp add: perform_undo_def undo_remove_def get_def Path_of_str Let_def)

subsection \<open>An add whose final move fails\<close>

lemma move_refused: "move True t e src dst = None"
  by (simp add: move_def Let_def)

lemma add_file_rollback:
  fixes root src e
  defines "dest \<equiv> join_str root (add_base src)"
  defines "trashed \<equiv> join_str (join_str root ''.trash'') (trash_name e dest)"
  assumes res: "add_file e root src force s = (Returned (False, Failed_move), s1)"
    and wf: "wf_path root" and wfs: "wf_path src"
    and destfile: "fs s (key e dest) = Some (File old)"
    and nodir: "fs s (key e trashed) \<noteq> Some Dir"
  shows "\<not> fails e Move_rollback \<Longrightarrow>
           fs s1 (key e dest) = Some (File old) \<and> fs s1 (key e trashed) = None"
    and "fails e Move_rollback \<Longrightarrow>
           fs s1 (key e trashed) = Some (File old) \<and> fs s1 (key e dest) = None"
    and "parts src \<noteq> [] \<Longrightarrow> key e src \<noteq> key e dest \<Longrightarrow>
           fs s (key e src) = Some (File new) \<Longrightarrow> fs s1 (key e src) = Some (File new)"
proof -
  have vb: "valid_part (add_base src)" by (rule valid_add_base[OF wfs])
  have wfd: "wf_path dest" unfolding dest_def by (rule wf_join_str[OF wf])
  have kd: "key e dest = key e root @ [add_base src]"
    unfolding dest_def by (rule key_join_valid[OF vb])
  have nd: "path_name dest = add_base src"
    unfolding dest_def by (rule name_join_valid[OF vb])
  have ktr: "key e trashed = key e root @ [''.trash'', trash_name e dest]"
    unfolding trashed_def by (rule key_trashed[OF wfd])
  have ne1: "key e trashed \<noteq> key e dest" using kd ktr by simp
  have ex: "path_exists e (fs s) dest" using destfile by (simp add: path_exists_def)
  from res ex obtain td t1 t2 where
    td: "trash_dir_for (fails e Mkdir_trash) e (fs s) root = Some (td, t1)"
    and mv: "move (fails e Move_to_trash) t1 e dest (join_str td (trash_name e dest)) = Some t2"
    and fin: "add_move e src (add_base src) dest (Some (join_str td (trash_name e dest)))
                (s\<lparr>fs := t2\<rparr>) = (Returned (False, Failed_move), s1)"
    by (auto simp: add_file_def Let_def dest_def split: if_splits option.splits prod.splits)
  from trash_dir_for_result[OF td] have tdeq: "td = join_str root ''.trash''"
    and mk: "mkdir_parents (fails e Mkdir_trash) (fs s) (key e root @ [''.trash'']) = Some t1"
    by simp_all
  have d1: "t1 (key e dest) = Some (File old)" by (rule mkdir_parents_result(2)[OF mk destfile])
  have "t1 (key e trashed) = fs s (key e trashed)"
    using mkdir_parents_longer[OF mk, of "key e trashed"] ktr by simp
  then have nd1: "t1 (key e trashed) \<noteq> Some Dir" using nodir by simp
  have t2: "t2 = (t1(key e dest := None))(key e trashed \<mapsto> File old)"
    using move_file_result[OF mv[unfolded tdeq, folded trashed_def] d1 nd1] .
  have tr2: "t2 (key e trashed) = Some (File old)" and de2: "t2 (key e dest) \<noteq> Some Dir"
    using t2 ne1 by simp_all
  have ex2: "path_exists e t2 trashed" using tr2 by (simp add: path_exists_def)
  from fin ex2 have alt:
    "(move (fails e Move_rollback) t2 e trashed dest = None \<and> fs s1 = t2) \<or>
     (\<exists>t'. move (fails e Move_rollback) t2 e trashed dest = Some t' \<and> fs s1 = t')"
    by (auto simp: add_move_def Let_def tdeq trashed_def split: option.splits if_splits)
  have restored: "t' = (t2(key e trashed := None))(key e dest \<mapsto> File old)"
    if "move (fails e Move_rollback) t2 e trashed dest = Some t'" for t'
    using move_file_result[OF that tr2 de2] .
  show "fs s1 (key e dest) = Some (File old) \<and> fs s1 (key e trashed) = None"
    if "\<not> fails e Move_rollback"
    using alt restored move_file_ok[OF that tr2 de2] ne1 by auto
  show "fs s1 (key e trashed) = Some (File old) \<and> fs s1 (key e dest) = None"
    if "fails e Move_rollback"
    using alt that t2 ne1 by (auto simp: move_refused)
  show "fs s1 (key e src) = Some (File new)"
    if named: "parts src \<noteq> []" and apart: "key e src \<noteq> key e dest"
      and srcfile: "fs s (key e src) = Some (File new)"
  proof -
    have "length (path_name src) \<le> length (add_base src)" by (simp add: add_base_def)
    then have "trash_name e dest \<noteq> path_name src"
      using trash_name_longer[of dest e] nd by auto
    then have ne2: "key e trashed \<noteq> key e src"
      using key_last[OF named, of e] ktr by (metis last.simps last_appendR list.distinct(1))
    have "t1 (key e src) = Some (File new)" by (rule mkdir_parents_result(2)[OF mk srcfile])
    then have "t2 (key e src) = Some (File new)" using t2 ne2 apart by simp
    then show ?thesis using alt restored ne2 apart by auto
  qed
qed

lemma add_file_final_refused:
  fixes root src e
  defines "dest \<equiv> join_str root (add_base src)"
  assumes srcex: "path_exists e (fs s) src"
    and wf: "wf_path root" and wfs: "wf_path src"
    and destfile: "fs s (key e dest) = Some (File old)"
    and nodir: "fs s (key e (join_str (join_str root ''.trash'') (trash_name e dest))) \<noteq> Some Dir"
    and go: "force \<or> affirmative (answer e)"
    and mkdir_ok: "\<not> fails e Mkdir_trash"
      "\<not> list_ex (is_file (fs s)) (prefixes (key e root @ [''.trash'']))"
    and trash_ok: "\<not> fails e Move_to_trash"
    and refused: "fails e Move_final"
  shows "fst (add_file e root src force s) = Returned (False, Failed_move)"
proof -
  define trashed where "trashed = join_str (join_str root ''.trash'') (trash_name e dest)"
  have wfd: "wf_path dest" unfolding dest_def by (rule wf_join_str[OF wf])
  have ktr: "key e trashed = key e root @ [''.trash'', trash_name e dest]"
    unfolding trashed_def by (rule key_trashed[OF wfd])
  have ex: "path_exists e (fs s) dest" using destfile by (simp add: path_exists_def)
  from mkdir_ok obtain t1 where
    mk: "mkdir_parents (fails e Mkdir_trash) (fs s) (key e root @ [''.trash'']) = Some t1"
    by (simp add: mkdir_parents_def)
  then have td: "trash_dir_for (fails e Mkdir_trash) e (fs s) root
                   = Some (join_str root ''.trash'', t1)"
    by (simp add: trash_dir_for_def Let_def key_join_valid valid_dot_trash)
  have d1: "t1 (key e dest) = Some (File old)" by (rule mkdir_parents_result(2)[OF mk destfile])
  have "t1 (key e trashed) = fs s (key e trashed)"
    using mkdir_parents_longer[OF mk, of "key e trashed"] ktr by simp
  then have nd1: "t1 (key e trashed) \<noteq> Some Dir" using nodir by (simp add: trashed_def)
  from move_file_ok[OF trash_ok d1 nd1] obtain t2 where
    mv: "move (fails e Move_to_trash) t1 e dest trashed = Some t2" by blast
  have "fst (add_move e src (add_base src) dest (Some trashed) (s\<lparr>fs := t2\<rparr>))
          = Returned (False, Failed_move)"
    using refused by (simp add: add_move_def move_refused split: option.splits)
  then show ?thesis
    using srcex ex go td mv
    by (auto simp: add_file_def Let_def dest_def[symmetric] trashed_def[symmetric])
qed

subsection \<open>Calls that do not succeed\<close>

lemma add_move_outcomes:
  "add_move e src base dest ot s = (r, s1) \<Longrightarrow> succeeded r \<or> r = Returned (False, Failed_move)"
  by (auto simp: add_move_def Let_def split: option.splits if_splits)

lemma rename_move_outcomes:
  "rename_move e oc nc p_old p_new ov s = (r, s1) \<Longrightarrow>
     succeeded r \<or> r = Returned (False, Failed_rename)"
  by (auto simp: rename_move_def Let_def split: option.splits if_splits)

lemma remove_prompt_not_success:
  assumes res: "remove_prompt e root name yes s = (r, s1)"
    and fl: "\<not> succeeded r"
    and isfile: "fs s (key e (join_str root (candidate_of name))) = Some (File bytes)"
  shows "fs s1 (key e (join_str root (candidate_of name))) = Some (File bytes)"
  using res fl isfile
  by (auto simp: remove_prompt_def Let_def trash_dir_for_def
           split: if_splits option.splits prod.splits
           dest: mkdir_parents_result(2))

lemma add_file_rollback_dir:
  fixes root src e
  defines "dest \<equiv> join_str root (add_base src)"
  defines "trashed \<equiv> join_str (join_str root ''.trash'') (trash_name e dest)"
  assumes res: "add_file e root src force s = (Returned (False, Failed_move), s1)"
    and wf: "wf_path root" and wfs: "wf_path src"
    and destfile: "fs s (key e dest) = Some (File old)"
    and nodir: "fs s (key e trashed) \<noteq> Some Dir"
  shows "fs s1 (key e root @ [''.trash'']) = Some Dir"
proof -
  have vb: "valid_part (add_base src)" by (rule valid_add_base[OF wfs])
  have wfd: "wf_path dest" unfolding dest_def by (rule wf_join_str[OF wf])
  have kd: "key e dest = key e root @ [add_base src]"
    unfolding dest_def by (rule key_join_valid[OF vb])
  have ktr: "key e trashed = key e root @ [''.trash'', trash_name e dest]"
    unfolding trashed_def by (rule key_trashed[OF wfd])
  have ne1: "key e trashed \<noteq> key e dest" using kd ktr by simp
  have ex: "path_exists e (fs s) dest" using destfile by (simp add: path_exists_def)
  from res ex obtain td t1 t2 where
    td: "trash_dir_for (fails e Mkdir_trash) e (fs s) root = Some (td, t1)"
    and mv: "move (fails e Move_to_trash) t1 e dest (join_str td (trash_name e dest)) = Some t2"
    and fin: "add_move e src (add_base src) dest (Some (join_str td (trash_name e dest)))
                (s\<lparr>fs := t2\<rparr>) = (Returned (False, Failed_move), s1)"
    by (auto simp: add_file_def Let_def dest_def split: if_splits option.splits prod.splits)
  from trash_dir_for_result[OF td] have tdeq: "td = join_str root ''.trash''"
    and mk: "mkdir_parents (fails e Mkdir_trash) (fs s) (key e root @ [''.trash'']) = Some t1"
    by simp_all
  have d1: "t1 (key e dest) = Some (File old)" by (rule mkdir_parents_result(2)[OF mk destfile])
  have "t1 (key e trashed) = fs s (key e trashed)"
    using mkdir_parents_longer[OF mk, of "key e trashed"] ktr by simp
  then have nd1: "t1 (key e trashed) \<noteq> Some Dir" using nodir by simp
  have t2: "t2 = (t1(key e dest := None))(key e trashed \<mapsto> File old)"
    using move_file_result[OF mv[unfolded tdeq, folded trashed_def] d1 nd1] .
  have tr2: "t2 (key e trashed) = Some (File old)" and de2: "t2 (key e dest) \<noteq> Some Dir"
    using t2 ne1 by simp_all
  have ex2: "path_exists e t2 trashed" using tr2 by (simp add: path_exists_def)
  have a1: "key e root @ [''.trash''] \<noteq> key e dest"
    using mkdir_keeps_files_apart[OF mk destfile] by simp
  have a2: "key e root @ [''.trash''] \<noteq> key e trashed" using ktr by simp
  have dir2: "t2 (key e root @ [''.trash'']) = Some Dir"
    using t2 a1 a2 mkdir_parents_result(3)[OF mk] by simp
  from fin ex2 have alt:
    "(move (fails e Move_rollback) t2 e trashed dest = None \<and> fs s1 = t2) \<or>
     (\<exists>t'. move (fails e Move_rollback) t2 e trashed dest = Some t' \<and> fs s1 = t')"
    by (auto simp: add_move_def Let_def tdeq trashed_def split: option.splits if_splits)
  have "t' = (t2(key e trashed := None))(key e dest \<mapsto> File old)"
    if "move (fails e Move_rollback) t2 e trashed dest = Some t'" for t'
    using move_file_result[OF that tr2 de2] .
  then show ?thesis using alt dir2 a1 a2 by auto
qed

lemma add_file_not_success:
  fixes root src e
  defines "dest \<equiv> join_str root (add_base src)"
  defines "trashed \<equiv> join_str (join_str root ''.trash'') (trash_name e dest)"
  assumes res: "add_file e root src force s = (r, s1)"
    and fl: "\<not> succeeded r"
    and wf: "wf_path root" and wfs: "wf_path src"
    and destfile: "fs s (key e dest) = Some (File old)"
    and nodir: "fs s (key e trashed) \<noteq> Some Dir"
  shows "fs s1 (key e dest) = Some (File old) \<or>
         (r = Returned (False, Failed_move) \<and> fails e Move_rollback \<and>
          fs s1 (key e trashed) = Some (File old) \<and>
          fs s1 (key e root @ [''.trash'']) = Some Dir)"
proof (cases "r = Returned (False, Failed_move)")
  case True
  note res' = res[unfolded True]
  note rb = add_file_rollback[OF res' wf wfs destfile[unfolded dest_def]
      nodir[unfolded trashed_def dest_def]]
  note dr = add_file_rollback_dir[OF res' wf wfs destfile[unfolded dest_def]
      nodir[unfolded trashed_def dest_def]]
  show ?thesis
    using rb(1,2) dr True unfolding dest_def trashed_def by (cases "fails e Move_rollback") auto
next
  case False
  have "fs s1 (key e dest) = Some (File old)"
    using res fl False destfile
    by (auto simp: add_file_def Let_def dest_def trash_dir_for_def
             split: if_splits option.splits prod.splits
             dest: mkdir_parents_result(2) add_move_outcomes)
  then show ?thesis by simp
qed

lemma rename_prompt_rollback:
  fixes root old new e
  defines "p_new \<equiv> join_str root (candidate_of new)"
  defines "trashed \<equiv> join_str (join_str root ''.trash'') (trash_name e p_new)"
  assumes res: "rename_prompt e root old new force s = (Returned (False, Failed_rename), s1)"
    and wf: "wf_path root"
    and newfile: "fs s (key e p_new) = Some (File b)"
    and nodir: "fs s (key e trashed) \<noteq> Some Dir"
  shows "\<not> fails e Move_rollback \<Longrightarrow>
           fs s1 (key e p_new) = Some (File b) \<and> fs s1 (key e trashed) = None"
    and "fails e Move_rollback \<Longrightarrow>
           fs s1 (key e trashed) = Some (File b) \<and> fs s1 (key e p_new) = None"
    and "fs s1 (key e root @ [''.trash'']) = Some Dir"
proof -
  have wfn: "wf_path p_new" unfolding p_new_def by (rule wf_join_str[OF wf])
  have ktr: "key e trashed = key e root @ [''.trash'', trash_name e p_new]"
    unfolding trashed_def by (rule key_trashed[OF wfn])
  have pn: "parts p_new \<noteq> []" unfolding p_new_def by (rule parts_candidate)
  have "trash_name e p_new \<noteq> path_name p_new"
    using trash_name_longer[of p_new e] by auto
  then have ne1: "key e trashed \<noteq> key e p_new"
    using key_last[OF pn, of e] ktr by (metis last.simps last_appendR list.distinct(1))
  have ex: "path_exists e (fs s) p_new" using newfile by (simp add: path_exists_def)
  from res ex obtain td t1 t2 where
    td: "trash_dir_for (fails e Mkdir_trash) e (fs s) root = Some (td, t1)"
    and mv: "move (fails e Move_to_trash) t1 e p_new (join_str td (trash_name e p_new)) = Some t2"
    and fin: "rename_move e (candidate_of old) (candidate_of new)
                (join_str root (candidate_of old)) p_new
                (Some (join_str td (trash_name e p_new))) (s\<lparr>fs := t2\<rparr>)
                = (Returned (False, Failed_rename), s1)"
    by (auto simp: rename_prompt_def Let_def p_new_def split: if_splits option.splits prod.splits)
  from trash_dir_for_result[OF td] have tdeq: "td = join_str root ''.trash''"
    and mk: "mkdir_parents (fails e Mkdir_trash) (fs s) (key e root @ [''.trash'']) = Some t1"
    by simp_all
  have n1: "t1 (key e p_new) = Some (File b)" by (rule mkdir_parents_result(2)[OF mk newfile])
  have "t1 (key e trashed) = fs s (key e trashed)"
    using mkdir_parents_longer[OF mk, of "key e trashed"] ktr by simp
  then have nd1: "t1 (key e trashed) \<noteq> Some Dir" using nodir by simp
  have t2: "t2 = (t1(key e p_new := None))(key e trashed \<mapsto> File b)"
    using move_file_result[OF mv[unfolded tdeq, folded trashed_def] n1 nd1] .
  have tr2: "t2 (key e trashed) = Some (File b)" and de2: "t2 (key e p_new) \<noteq> Some Dir"
    using t2 ne1 by simp_all
  have ex2: "path_exists e t2 trashed" using tr2 by (simp add: path_exists_def)
  have a1: "key e root @ [''.trash''] \<noteq> key e p_new"
    using mkdir_keeps_files_apart[OF mk newfile] by simp
  have a2: "key e root @ [''.trash''] \<noteq> key e trashed" using ktr by simp
  have dir2: "t2 (key e root @ [''.trash'']) = Some Dir"
    using t2 a1 a2 mkdir_parents_result(3)[OF mk] by simp
  from fin ex2 have alt:
    "(move (fails e Move_rollback) t2 e trashed p_new = None \<and> fs s1 = t2) \<or>
     (\<exists>t'. move (fails e Move_rollback) t2 e trashed p_new = Some t' \<and> fs s1 = t')"
    by (auto simp: rename_move_def Let_def tdeq trashed_def split: option.splits if_splits)
  have restored: "t' = (t2(key e trashed := None))(key e p_new \<mapsto> File b)"
    if "move (fails e Move_rollback) t2 e trashed p_new = Some t'" for t'
    using move_file_result[OF that tr2 de2] .
  show "fs s1 (key e p_new) = Some (File b) \<and> fs s1 (key e trashed) = None"
    if "\<not> fails e Move_rollback"
    using alt restored move_file_ok[OF that tr2 de2] ne1 by auto
  show "fs s1 (key e trashed) = Some (File b) \<and> fs s1 (key e p_new) = None"
    if "fails e Move_rollback"
    using alt that t2 ne1 by (auto simp: move_refused)
  show "fs s1 (key e root @ [''.trash'']) = Some Dir"
    using alt restored dir2 a1 a2 by auto
qed

lemma rename_prompt_not_success:
  fixes root old new e
  defines "p_new \<equiv> join_str root (candidate_of new)"
  defines "trashed \<equiv> join_str (join_str root ''.trash'') (trash_name e p_new)"
  assumes res: "rename_prompt e root old new force s = (r, s1)"
    and fl: "\<not> succeeded r"
    and wf: "wf_path root"
    and newfile: "fs s (key e p_new) = Some (File b)"
    and nodir: "fs s (key e trashed) \<noteq> Some Dir"
  shows "fs s1 (key e p_new) = Some (File b) \<or>
         (r = Returned (False, Failed_rename) \<and> fails e Move_rollback \<and>
          fs s1 (key e trashed) = Some (File b) \<and>
          fs s1 (key e root @ [''.trash'']) = Some Dir)"
proof (cases "r = Returned (False, Failed_rename)")
  case True
  note res' = res[unfolded True]
  note rb = rename_prompt_rollback[OF res' wf newfile[unfolded p_new_def]
      nodir[unfolded trashed_def p_new_def]]
  show ?thesis
    using rb True unfolding p_new_def trashed_def by (cases "fails e Move_rollback") auto
next
  case False
  have "fs s1 (key e p_new) = Some (File b)"
    using res fl False newfile
    by (auto simp: rename_prompt_def Let_def p_new_def trash_dir_for_def
             split: if_splits option.splits prod.splits
             dest: mkdir_parents_result(2) rename_move_outcomes)
  then show ?thesis by simp
qed

subsection \<open>The examples, evaluated\<close>

lemma Path_of_examples:
  "Path_of ''/r/x.prompt.md'' = Path True [''r'', ''x.prompt.md'']"
  "Path_of ''/r/.trash/5_x.prompt.md'' = Path True [''r'', ''.trash'', ''5_x.prompt.md'']"
  "Path_of ''a.prompt.md'' = Path False [''a.prompt.md'']"
  "Path_of ''b.prompt.md'' = Path False [''b.prompt.md'']"
  "Path_of ''zz.prompt.md'' = Path False [''zz.prompt.md'']"
  "Path_of ''.trash'' = Path False [''.trash'']"
  by (simp_all add: Path_of_def)

lemma ex_add_missing:
  "add_file env0 root0 (Path True [''nowhere'']) False state0
     = (Returned (False, File_not_found ''/nowhere''), state0)"
  by (simp add: add_file_def path_exists_def key_def state0_def tree0_def str_path_def)

lemma ex_remove_missing:
  "remove_prompt env0 root0 ''zz'' True state0 = (Returned (False, Not_found ''zz.prompt.md''), state0)"
  by (simp add: remove_prompt_def candidate_of_def endswith_def SUFFIX_def join_str_def joinpath_def root0_def
        Path_of_examples path_exists_def key_def state0_def tree0_def)

lemma ex_rename_missing:
  "rename_prompt env0 root0 ''zz'' ''b'' False state0 = (Returned (False, Not_found ''zz.prompt.md''), state0)"
  by (simp add: rename_prompt_def candidate_of_def endswith_def SUFFIX_def join_str_def joinpath_def root0_def
        Path_of_examples path_exists_def key_def state0_def tree0_def Let_def)

lemma ex_undo_missing:
  "perform_undo env0 state0 = (Returned (False, Trashed_not_found), state0)"
  by (simp add: perform_undo_def undo_remove_def get_def state0_def cfg0_def
        Path_of_examples path_exists_def key_def tree0_def)

lemma ex_undo_remove_ok:
  "fst (perform_undo env0 state1) = Returned (True, Restored ''x.prompt.md'')"
  "fs (snd (perform_undo env0 state1)) [''r'', ''x.prompt.md''] = Some (File ''xx'')"
  by (simp_all add: perform_undo_def undo_remove_def get_def state1_def cfg0_def
        Path_of_examples path_exists_def key_def tree1_def tree0_def path_parent_def
        mkdir_parents_def is_file_def move_def env0_def Let_def path_name_def save_config_def
        pop_last_def)

lemma ex_wf: "wf_path (Path False [''notes''])" "wf_path (Path False [''notes.prompt.md''])"
  "wf_path (Path False [''a''])" "wf_path root0"
  by (simp_all add: wf_path_def valid_part_def root0_def)

lemma ex_add_notes:
  "fst (add_file env0 root0 (Path False [''notes'']) False state0)
     = Returned (True, Added ''notes.prompt.md'' ''notes'')"
  "fs (snd (add_file env0 root0 (Path False [''notes'']) False state0)) [''r'', ''notes.prompt.md'']
     = Some (File ''text'')"
  by (simp_all add: add_file_def add_base_def path_name_def endswith_def SUFFIX_def
        path_exists_def key_def env0_def state0_def tree0_def join_str_def joinpath_def root0_def
        Path_of_def add_move_def move_def Let_def save_config_def set_last_def)

lemma ex_declined:
  "path_exists env0 (fs state0) (Path False [''a''])"
  "path_exists env0 (fs state0) (join_str root0 (add_base (Path False [''a''])))"
  "\<not> affirmative (answer env0)"
  by (simp_all add: path_exists_def key_def env0_def state0_def tree0_def add_base_def
        path_name_def endswith_def SUFFIX_def join_str_def joinpath_def root0_def Path_of_def
        affirmative_def strip_def lower_def is_space_def lower_cp_def codepoints_def)

lemma affirmative_examples:
  "affirmative (codepoints ''y'')" "affirmative (codepoints '' Yes '')"
  "affirmative (codepoints ''YES'')" "\<not> affirmative (codepoints [])"
  "\<not> affirmative (codepoints ''no'')" "\<not> affirmative (codepoints ''yy'')"
  "affirmative [0xA0, 0x79]" "affirmative [0x3000, 0x59, 0x45, 0x53, 0x85, 0x2003]"
  "\<not> affirmative [0x200B, 0x79]"
  by (simp_all add: affirmative_def strip_def lower_def is_space_def lower_cp_def codepoints_def)

lemma ex_rename_ac:
  "fst (rename_prompt env0 root0 ''a'' ''c'' False state0)
     = Returned (True, Renamed ''a.prompt.md'' ''c.prompt.md'')"
  "fs (snd (rename_prompt env0 root0 ''a'' ''c'' False state0)) [''r'', ''c.prompt.md'']
     = Some (File ''alpha'')"
  "fs (snd (rename_prompt env0 root0 ''a'' ''c'' False state0)) [''r'', ''a.prompt.md''] = None"
  by (simp_all add: rename_prompt_def candidate_of_def endswith_def SUFFIX_def
        path_exists_def key_def env0_def state0_def tree0_def join_str_def joinpath_def root0_def
        Path_of_def rename_move_def move_def Let_def save_config_def set_last_def)

lemma str_nat_7: "str_nat 7 = ''7''"
  by (simp add: str_nat.simps digit_char_def)

lemma ex_paths:
  "join_str root0 (candidate_of ''a'') = Path True [''r'', ''a.prompt.md'']"
  "join_str root0 (candidate_of ''b'') = Path True [''r'', ''b.prompt.md'']"
  "join_str root0 ''.trash'' = Path True [''r'', ''.trash'']"
  "trash_name env0 (Path True [''r'', ''a.prompt.md'']) = ''7_a.prompt.md''"
  "trash_name env0 (Path True [''r'', ''b.prompt.md'']) = ''7_b.prompt.md''"
  "join_str (Path True [''r'', ''.trash'']) ''7_a.prompt.md''
     = Path True [''r'', ''.trash'', ''7_a.prompt.md'']"
  "join_str (Path True [''r'', ''.trash'']) ''7_b.prompt.md''
     = Path True [''r'', ''.trash'', ''7_b.prompt.md'']"
  by (simp_all add: candidate_of_def endswith_def SUFFIX_def join_str_def joinpath_def root0_def
        Path_of_def trash_name_def env0_def str_nat_7 path_name_def)

lemma ex_env [simp]:
  "now env0 = 7" "answer env0 = codepoints ''n''" "cwd env0 = [''home'']" "fails env0 x = False"
  by (simp_all add: env0_def)

lemma ex_state0 [simp]: "fs state0 = tree0" "cfg state0 = cfg0" "disk state0 = cfg0"
  by (simp_all add: state0_def)

lemma key_absolute [simp]: "key e (Path True ks) = ks"
  by (simp add: key_def)

lemma ex_remove_a:
  "fst (remove_prompt env0 root0 ''a'' True state0) = Returned (True, Removed ''a.prompt.md'')"
  "fs (snd (remove_prompt env0 root0 ''a'' True state0)) [''r'', ''a.prompt.md''] = None"
  "fs (snd (remove_prompt env0 root0 ''a'' True state0)) [''r'', ''.trash'', ''7_a.prompt.md'']
     = Some (File ''alpha'')"
  "fs (snd (remove_prompt env0 root0 ''a'' True state0)) [''r'', ''.trash''] = Some Dir"
  "fs (snd (remove_prompt env0 root0 ''a'' True state0)) [''r''] = Some Dir"
  "fs (snd (remove_prompt env0 root0 ''a'' True state0)) [] = Some Dir"
  "last_action (cfg (snd (remove_prompt env0 root0 ''a'' True state0)))
     = Some [(''action'', ''remove''), (''dest'', ''/r/a.prompt.md''),
             (''trashed'', ''/r/.trash/7_a.prompt.md'')]"
  by (simp_all add: remove_prompt_def ex_paths Let_def path_exists_def tree0_def
        trash_dir_for_def mkdir_parents_def is_file_def move_def
        save_config_def set_last_def path_name_def str_path_def,
      simp_all add: candidate_of_def endswith_def SUFFIX_def)


lemma ex_parent: "path_parent (Path True [''r'', ''a.prompt.md'']) = Path True [''r'']"
  by (simp add: path_parent_def)

lemma key_relative [simp]: "key e (Path False ks) = cwd e @ ks"
  by (simp add: key_def)

lemma ex_add_paths:
  "add_base (Path False [''a'']) = ''a.prompt.md''"
  "join_str root0 ''a.prompt.md'' = Path True [''r'', ''a.prompt.md'']"
  "join_str root0 ''b.prompt.md'' = Path True [''r'', ''b.prompt.md'']"
  by (simp_all add: add_base_def path_name_def endswith_def SUFFIX_def join_str_def joinpath_def
        root0_def Path_of_def)

lemma ex_add_a:
  "fst (add_file env0 root0 (Path False [''a'']) True state0)
     = Returned (True, Added ''a.prompt.md'' ''a'')"
  by (simp add: add_file_def ex_add_paths ex_paths Let_def path_exists_def tree0_def
        trash_dir_for_def mkdir_parents_def is_file_def move_def add_move_def
        save_config_def set_last_def path_name_def endswith_def SUFFIX_def)

lemma ex_rename_ab:
  "fst (rename_prompt env0 root0 ''a'' ''b'' True state0)
     = Returned (True, Renamed ''a.prompt.md'' ''b.prompt.md'')"
  by (simp add: rename_prompt_def ex_paths Let_def path_exists_def tree0_def
        trash_dir_for_def mkdir_parents_def is_file_def move_def rename_move_def
        save_config_def set_last_def path_name_def,
      simp add: candidate_of_def endswith_def SUFFIX_def)

lemma ex_tree0:
  "tree0 [''r'', ''a.prompt.md''] = Some (File ''alpha'')"
  "tree0 [''r'', ''b.prompt.md''] = Some (File ''beta'')"
  "tree0 [''home'', ''a''] = Some (File ''new'')"
  "tree0 [''r'', ''.trash''] = None"
  "tree0 [''r'', ''.trash'', ''7_a.prompt.md''] = None"
  "tree0 [''r'', ''.trash'', ''7_b.prompt.md''] = None"
  by (simp_all add: tree0_def)

lemma ex_names:
  "path_name (Path True [''r'', ''a.prompt.md'']) = ''a.prompt.md''"
  "path_name (Path True [''r'', ''b.prompt.md'']) = ''b.prompt.md''"
  "key env0 root0 = [''r'']"
  by (simp_all add: path_name_def root0_def)

lemma ex_env_refused [simp]:
  "now env_final_refused = 7" "cwd env_final_refused = [''home'']"
  "fails env_final_refused x = (x = Move_final)"
  "now env_restore_refused = 7" "cwd env_restore_refused = [''home'']"
  "fails env_restore_refused x = (x = Move_final \<or> x = Move_rollback)"
  by (simp_all add: env_final_refused_def env_restore_refused_def)

lemma ex_refused_paths:
  "trash_name env_final_refused p = trash_name env0 p"
  "trash_name env_restore_refused p = trash_name env0 p"
  "key env_final_refused p = key env0 p"
  "key env_restore_refused p = key env0 p"
  by (simp_all add: trash_name_def key_def)

lemma prefix_trash:
  "prefix q [''r'', ''.trash''] \<longleftrightarrow> q = [] \<or> q = [''r''] \<or> q = [''r'', ''.trash'']"
  by (auto simp: prefix_Cons)

lemma ex_add_a_state:
  "add_file env0 root0 (Path False [''a'']) True state0
     = (Returned (True, Added ''a.prompt.md'' ''a''), state_added)"
  apply (simp add: add_file_def ex_add_paths ex_paths Let_def path_exists_def ex_tree0
        trash_dir_for_def mkdir_parents_def is_file_def move_def add_move_def
        save_config_def set_last_def path_name_def endswith_def SUFFIX_def str_path_def
        state_added_def state0_def cfg_added_def cfg0_def)
  apply (simp add: tree0_def)
  apply (rule ext)
  apply (auto simp: tree_added_def tree0_def prefix_trash)
  done

lemma ex_env8 [simp]:
  "now env8 = 8" "cwd env8 = [''home'']" "fails env8 x = False"
  by (simp_all add: env8_def)

lemma str_nat_8: "str_nat 8 = ''8''"
  by (simp add: str_nat.simps digit_char_def)

lemma ex_undo_paths:
  "Path_of ''/r/a.prompt.md'' = Path True [''r'', ''a.prompt.md'']"
  "Path_of ''/r/.trash/7_a.prompt.md'' = Path True [''r'', ''.trash'', ''7_a.prompt.md'']"
  "path_parent (Path True [''r'', ''a.prompt.md'']) = Path True [''r'']"
  "join_str (Path True [''r'']) ''.trash'' = Path True [''r'', ''.trash'']"
  "trash_name env8 (Path True [''r'', ''a.prompt.md'']) @ ''.added'' = ''8_a.prompt.md.added''"
  "join_str (Path True [''r'', ''.trash'']) ''8_a.prompt.md.added''
     = Path True [''r'', ''.trash'', ''8_a.prompt.md.added'']"
  by (simp_all add: Path_of_def path_parent_def join_str_def joinpath_def trash_name_def
        str_nat_8 path_name_def)

lemma ex_undo_added:
  "perform_undo env8 state_added = (Returned (True, Restored_overwritten), state_undone)"
  apply (simp add: perform_undo_def undo_add_def get_def state_added_def cfg_added_def Let_def
        ex_undo_paths path_exists_def tree_added_def undo_add_overwritten_def move_def
        trash_dir_for_def mkdir_parents_def is_file_def path_name_def save_config_def
        pop_last_def state_undone_def)
  apply (rule ext)
  apply (auto simp: tree_undone_def prefix_trash)
  done

lemma ex_env_trash_refused [simp]:
  "now env_trash_refused = 7" "cwd env_trash_refused = [''home'']"
  "fails env_trash_refused x = (x = Move_to_trash)"
  "trash_name env_trash_refused p = trash_name env0 p"
  "key env_trash_refused p = key env0 p"
  by (simp_all add: env_trash_refused_def trash_name_def key_def)

lemma ex_remove_refused:
  "fst (remove_prompt env_trash_refused root0 ''a'' True state0) = Returned (False, Failed_remove)"
  by (simp add: remove_prompt_def ex_paths Let_def path_exists_def tree0_def
        trash_dir_for_def mkdir_parents_def is_file_def move_def path_name_def key_def)

lemma ex_rename_refused:
  "fst (rename_prompt env_final_refused root0 ''a'' ''b'' True state0)
     = Returned (False, Failed_rename)"
  by (simp add: rename_prompt_def ex_paths ex_refused_paths Let_def path_exists_def tree0_def
        trash_dir_for_def mkdir_parents_def is_file_def move_def rename_move_def
        path_name_def)

lemma ex_add_refused:
  "fst (add_file env_final_refused root0 (Path False [''a'']) True state0)
     = Returned (False, Failed_move)"
  "fst (add_file env_restore_refused root0 (Path False [''a'']) True state0)
     = Returned (False, Failed_move)"
  "fs (snd (add_file env_restore_refused root0 (Path False [''a'']) True state0))
      [''r'', ''a.prompt.md''] = None"
  by (simp_all add: add_file_def ex_add_paths ex_paths ex_refused_paths Let_def path_exists_def
        tree0_def trash_dir_for_def mkdir_parents_def is_file_def move_def add_move_def
        path_name_def)

section \<open>The claims\<close>

text \<open>
  C1. The undo of an add that overwrote a prompt, at a concrete input. The file
  \<open>/home/a\<close> (bytes \<open>new\<close>) is added over \<open>/r/a.prompt.md\<close> (bytes \<open>alpha\<close>); the add
  succeeds, the old file is in the trash and the log records it under
  \<open>overwritten_trash\<close>. The undo then moves the trashed file onto the destination, which
  replaces the added file, and moves the destination, now the old file, to the trash
  under the name that ends with \<open>.added\<close>. It reports success, yet afterwards
  \<open>/r/a.prompt.md\<close> does not exist, the file \<open>8_a.prompt.md.added\<close> in the trash holds the
  old bytes \<open>alpha\<close>, and no path holds the bytes \<open>new\<close>.
\<close>

theorem undo_add_overwritten_loses_added:
  "add_file env0 root0 (Path False [''a'']) True state0
     = (Returned (True, Added ''a.prompt.md'' ''a''), state_added) \<and>
   fs state_added [''r'', ''a.prompt.md''] = Some (File ''new'') \<and>
   fs state_added [''r'', ''.trash'', ''7_a.prompt.md''] = Some (File ''alpha'') \<and>
   perform_undo env8 state_added = (Returned (True, Restored_overwritten), state_undone) \<and>
   fs state_undone [''r'', ''a.prompt.md''] = None \<and>
   fs state_undone [''r'', ''.trash'', ''8_a.prompt.md.added''] = Some (File ''alpha'') \<and>
   (\<forall>k. fs state_undone k \<noteq> Some (File ''new''))"
  using ex_add_a_state ex_undo_added
  by (simp add: state_added_def tree_added_def state_undone_def tree_undone_def)

text \<open>
  C2. A prompt that is a regular file under the root, removed with the confirmation
  granted and then undone, is back at its original path with the same bytes. When the
  system refuses nothing and no regular file blocks the parent directories, the undo
  does succeed. When the trashed file is no longer at the recorded path, the undo
  returns \<open>trashed file not found\<close> (a \<open>NotFoundError\<close>) and changes nothing. The root
  is a path as \<open>pathlib\<close> builds it; the trash holds files only, so no directory has
  the name of the trashed file; a relative root is read from the same working directory
  by both calls.
\<close>

theorem remove_then_undo:
  assumes wf: "wf_path root"
    and isfile: "fs s (key e (join_str root (candidate_of name))) = Some (File bytes)"
    and nodir: "fs s (key e root @ [''.trash'', trash_name e (join_str root (candidate_of name))])
                  \<noteq> Some Dir"
    and ok: "remove_prompt e root name yes s = (Returned (True, m), s1)"
    and same: "absolute root \<or> cwd e2 = cwd e"
  shows "(perform_undo e2 s1 = (Returned (True, m2), s2) \<longrightarrow>
            fs s2 (key e (join_str root (candidate_of name))) = Some (File bytes)) \<and>
         (\<not> fails e2 Mkdir_parent \<and> \<not> fails e2 Move_restore \<and>
          \<not> list_ex (is_file (fs s1))
               (prefixes (key e2 (path_parent (join_str root (candidate_of name))))) \<longrightarrow>
            fst (perform_undo e2 s1)
              = Returned (True, Restored (path_name (join_str root (candidate_of name))))) \<and>
         (t' (key e2 root @ [''.trash'', trash_name e (join_str root (candidate_of name))]) = None
          \<longrightarrow>
            perform_undo e2 (s1\<lparr>fs := t'\<rparr>) = (Returned (False, Trashed_not_found), s1\<lparr>fs := t'\<rparr>) \<and>
            fails_with (fst (perform_undo e2 (s1\<lparr>fs := t'\<rparr>))) NotFoundError)"
proof -
  define p where "p = join_str root (candidate_of name)"
  define trashed where "trashed = join_str (join_str root ''.trash'') (trash_name e p)"
  have wfp: "wf_path p" unfolding p_def by (rule wf_join_str[OF wf])
  have wft: "wf_path trashed" unfolding trashed_def by (intro wf_join_str wf)
  have pne: "parts p \<noteq> []" unfolding p_def by (rule parts_candidate)
  have kp: "key e2 p = key e p"
    using same absolute_join_str[of root "candidate_of name"] key_same[of p e2 e]
    by (auto simp: p_def)
  have kt: "key e2 trashed = key e trashed"
    using same absolute_join_str[of "join_str root ''.trash''" "trash_name e p"]
      absolute_join_str[of root "''.trash''"] key_same[of trashed e2 e]
    by (auto simp: trashed_def)
  have ktr: "key e' trashed = key e' root @ [''.trash'', trash_name e p]" for e'
    unfolding trashed_def by (rule key_trashed[OF wfp])
  note nodir' = nodir[folded p_def, folded ktr]
  note rs = remove_prompt_success[OF ok isfile nodir'[unfolded trashed_def p_def] wf,
      folded p_def, folded trashed_def]
  from rs(1) obtain t1 where
    fs1: "fs s1 = (t1(key e p := None))(key e trashed \<mapsto> File bytes)" by blast
  note en = rs(2)
  have first: "fs s2 (key e p) = Some (File bytes)"
    if u: "perform_undo e2 s1 = (Returned (True, m2), s2)"
  proof -
    from u obtain t3 t4 where
      mk: "mkdir_parents (fails e2 Mkdir_parent) (fs s1) (key e2 (path_parent p)) = Some t3"
      and mv: "move (fails e2 Move_restore) t3 e2 trashed p = Some t4"
      and s2: "s2 = save_config e2 (pop_last (s1\<lparr>fs := t4\<rparr>))"
      unfolding undo_remove_entry[OF en wfp wft]
      by (auto split: if_splits option.splits)
    have "fs s1 (key e2 trashed) = Some (File bytes)" using fs1 kt by simp
    then have src: "t3 (key e2 trashed) = Some (File bytes)"
      by (rule mkdir_parents_result(2)[OF mk])
    have "length (key e2 (path_parent p)) < length (key e2 p)"
      using key_parent[OF pne, of e2] by simp
    then have "t3 (key e2 p) = fs s1 (key e2 p)"
      by (rule mkdir_parents_longer[OF mk])
    then have dst: "t3 (key e2 p) \<noteq> Some Dir" using fs1 kp by auto
    have "t4 = (t3(key e2 trashed := None))(key e2 p \<mapsto> File bytes)"
      by (rule move_file_result[OF mv src dst])
    then show ?thesis using s2 kp by simp
  qed
  have succeeds: "fst (perform_undo e2 s1) = Returned (True, Restored (path_name p))"
    if a: "\<not> fails e2 Mkdir_parent" "\<not> fails e2 Move_restore"
      "\<not> list_ex (is_file (fs s1)) (prefixes (key e2 (path_parent p)))"
  proof -
    have ex: "path_exists e2 (fs s1) trashed" using fs1 kt by (simp add: path_exists_def)
    from a obtain t3 where
      mk: "mkdir_parents (fails e2 Mkdir_parent) (fs s1) (key e2 (path_parent p)) = Some t3"
      by (simp add: mkdir_parents_def)
    have "fs s1 (key e2 trashed) = Some (File bytes)" using fs1 kt by simp
    then have src: "t3 (key e2 trashed) = Some (File bytes)"
      by (rule mkdir_parents_result(2)[OF mk])
    have "length (key e2 (path_parent p)) < length (key e2 p)"
      using key_parent[OF pne, of e2] by simp
    then have "t3 (key e2 p) = fs s1 (key e2 p)"
      by (rule mkdir_parents_longer[OF mk])
    then have dst: "t3 (key e2 p) \<noteq> Some Dir" using fs1 kp by auto
    from move_file_ok[OF a(2) src dst] obtain t4 where
      "move (fails e2 Move_restore) t3 e2 trashed p = Some t4" by blast
    then show ?thesis
      unfolding undo_remove_entry[OF en wfp wft] using ex mk by simp
  qed
  have second: "perform_undo e2 (s1\<lparr>fs := t'\<rparr>) = (Returned (False, Trashed_not_found), s1\<lparr>fs := t'\<rparr>)"
    if g: "t' (key e2 trashed) = None"
  proof -
    have "last_action (cfg (s1\<lparr>fs := t'\<rparr>)) = Some [(''action'', ''remove''), (''dest'', str_path p),
                                         (''trashed'', str_path trashed)]"
      using en by simp
    from undo_remove_entry[OF this wfp wft, of e2] g show ?thesis
      by (simp add: path_exists_def)
  qed
  show ?thesis
    using first second succeeds ktr[of e2] unfolding p_def trashed_def
    by (auto simp: fails_with_def)
qed

theorem remove_then_undo_witness:
  "wf_path root0 \<and> absolute root0 \<and>
   fs state0 (key env0 (join_str root0 (candidate_of ''a''))) = Some (File ''alpha'') \<and>
   fs state0 (key env0 root0 @ [''.trash'', trash_name env0 (join_str root0 (candidate_of ''a''))])
     \<noteq> Some Dir \<and>
   fst (remove_prompt env0 root0 ''a'' True state0) = Returned (True, Removed ''a.prompt.md'') \<and>
   fs (snd (remove_prompt env0 root0 ''a'' True state0)) [''r'', ''a.prompt.md''] = None \<and>
   fst (perform_undo env0 (snd (remove_prompt env0 root0 ''a'' True state0)))
     = Returned (True, Restored ''a.prompt.md'') \<and>
   fs (snd (perform_undo env0 (snd (remove_prompt env0 root0 ''a'' True state0))))
      [''r'', ''a.prompt.md''] = Some (File ''alpha'') \<and>
   fst (perform_undo env0 ((snd (remove_prompt env0 root0 ''a'' True state0))\<lparr>fs := tree0\<rparr>))
     = Returned (False, Trashed_not_found)"
proof -
  define s1 where "s1 = snd (remove_prompt env0 root0 ''a'' True state0)"
  define s2 where "s2 = snd (perform_undo env0 s1)"
  have h1: "wf_path root0" "absolute root0" by (simp_all add: wf_path_def valid_part_def root0_def)
  have h2: "fs state0 (key env0 (join_str root0 (candidate_of ''a''))) = Some (File ''alpha'')"
    by (simp add: ex_paths tree0_def)
  have h3: "fs state0 (key env0 root0 @ [''.trash'',
              trash_name env0 (join_str root0 (candidate_of ''a''))]) \<noteq> Some Dir"
    by (simp add: ex_paths ex_names tree0_def)
  have ok: "remove_prompt env0 root0 ''a'' True state0 = (Returned (True, Removed ''a.prompt.md''), s1)"
    unfolding s1_def using ex_remove_a(1) by (metis prod.collapse)
  have g: "tree0 (key env0 root0 @ [''.trash'',
             trash_name env0 (join_str root0 (candidate_of ''a''))]) = None"
    by (simp add: ex_paths ex_names tree0_def)
  have np: "\<not> list_ex (is_file (fs s1))
               (prefixes (key env0 (path_parent (join_str root0 (candidate_of ''a'')))))"
    unfolding s1_def by (simp add: ex_paths ex_parent is_file_def ex_remove_a)
  note th = remove_then_undo[OF h1(1) h2 h3 ok, where ?e2.0 = env0
        and ?m2.0 = "Restored ''a.prompt.md''" and ?s2.0 = s2 and t' = tree0]
  have r0: "fst (perform_undo env0 s1) = Returned (True, Restored ''a.prompt.md'')"
    using th np by (simp add: ex_paths path_name_def)
  then have u: "perform_undo env0 s1 = (Returned (True, Restored ''a.prompt.md''), s2)"
    unfolding s2_def by (metis prod.collapse)
  have r1: "fs s2 [''r'', ''a.prompt.md''] = Some (File ''alpha'')"
    using th u by (simp add: ex_paths)
  have r2: "fst (perform_undo env0 (s1\<lparr>fs := tree0\<rparr>)) = Returned (False, Trashed_not_found)"
    using th g by simp
  show ?thesis
    using h1 h2 h3 ex_remove_a(1,2) r0 r1 r2 unfolding s2_def s1_def by blast
qed

text \<open>
  C3. An add whose destination exists, without the overwrite flag, and whose confirmation
  is declined returns \<open>aborted\<close> (an \<open>AbortedError\<close>) and leaves the whole state as it
  was: the destination keeps its bytes and nothing enters the trash. The answer is
  declined when, with the white space of \<open>str.strip\<close> removed from both ends (all of
  Unicode's, the no-break space included) and lower-cased, it is neither \<open>y\<close> nor
  \<open>yes\<close>. The confirmation is only asked for when the source exists.
\<close>

theorem add_declined_aborts:
  assumes "path_exists e (fs s) src"
    and "path_exists e (fs s) (join_str root (add_base src))"
    and "\<not> force"
    and "\<not> affirmative (answer e)"
  shows "add_file e root src force s = (Returned (False, Aborted), s) \<and>
         fails_with (fst (add_file e root src force s)) AbortedError"
  using assms by (simp add: add_file_def Let_def fails_with_def)

theorem add_declined_aborts_witness:
  "path_exists env0 (fs state0) (Path False [''a'']) \<and>
   path_exists env0 (fs state0) (join_str root0 (add_base (Path False [''a'']))) \<and>
   \<not> affirmative (answer env0) \<and> affirmative [0xA0, 0x79] \<and>
   add_file env0 root0 (Path False [''a'']) False state0 = (Returned (False, Aborted), state0) \<and>
   fs state0 [''r'', ''a.prompt.md''] = Some (File ''alpha'') \<and>
   fs state0 [''r'', ''.trash''] = None"
  using ex_declined affirmative_examples(7)
    add_declined_aborts[OF ex_declined(1) ex_declined(2) _ ex_declined(3), of False]
  by (simp add: state0_def tree0_def)

text \<open>
  C4. Undo is single-shot. With an empty log \<open>perform_undo\<close> returns \<open>no action to undo\<close>
  (a \<open>NoActionError\<close>) and changes nothing. An undo that succeeds removes the entry from
  the dictionary, so that a second undo returns \<open>no action to undo\<close>; when the write of
  the configuration file went through, the entry is gone from the file too, and an undo
  that starts from the file's content returns \<open>no action to undo\<close> as well.
\<close>

theorem undo_single_shot:
  "(last_action (cfg s) = None \<or> last_action (cfg s) = Some [] \<longrightarrow>
      perform_undo e s = (Returned (False, No_action), s) \<and>
      fails_with (fst (perform_undo e s)) NoActionError) \<and>
   (perform_undo e s = (Returned (True, m), s') \<longrightarrow>
      last_action (cfg s') = None \<and>
      perform_undo e' s' = (Returned (False, No_action), s') \<and>
      fails_with (fst (perform_undo e' s')) NoActionError \<and>
      (\<not> fails e Write_config \<longrightarrow>
         last_action (disk s') = None \<and>
         perform_undo e' (s'\<lparr>cfg := disk s'\<rparr>) = (Returned (False, No_action), s'\<lparr>cfg := disk s'\<rparr>)))"
proof (intro conjI impI)
  assume "last_action (cfg s) = None \<or> last_action (cfg s) = Some []"
  then show "perform_undo e s = (Returned (False, No_action), s)"
    by (rule perform_undo_empty)
  then show "fails_with (fst (perform_undo e s)) NoActionError"
    by (simp add: fails_with_def)
next
  assume ok: "perform_undo e s = (Returned (True, m), s')"
  from perform_undo_success[OF ok] show n: "last_action (cfg s') = None" by simp
  then show u: "perform_undo e' s' = (Returned (False, No_action), s')"
    by (simp add: perform_undo_empty)
  then show "fails_with (fst (perform_undo e' s')) NoActionError"
    by (simp add: fails_with_def)
  assume w: "\<not> fails e Write_config"
  with perform_undo_success[OF ok] n show d: "last_action (disk s') = None" by simp
  then show "perform_undo e' (s'\<lparr>cfg := disk s'\<rparr>) = (Returned (False, No_action), s'\<lparr>cfg := disk s'\<rparr>)"
    by (simp add: perform_undo_empty)
qed

theorem undo_single_shot_witness:
  "fst (perform_undo env0 state1) = Returned (True, Restored ''x.prompt.md'') \<and>
   perform_undo env0 (snd (perform_undo env0 state1))
     = (Returned (False, No_action), snd (perform_undo env0 state1)) \<and>
   last_action (disk (snd (perform_undo env0 state1))) = None \<and>
   last_action (cfg (state1\<lparr>cfg := cfg0\<lparr>last_action := Some []\<rparr>\<rparr>)) = Some [] \<and>
   perform_undo env0 (state1\<lparr>cfg := cfg0\<lparr>last_action := Some []\<rparr>\<rparr>)
     = (Returned (False, No_action), state1\<lparr>cfg := cfg0\<lparr>last_action := Some []\<rparr>\<rparr>)"
proof -
  define s1 where "s1 = snd (perform_undo env0 state1)"
  have ok: "perform_undo env0 state1 = (Returned (True, Restored ''x.prompt.md''), s1)"
    unfolding s1_def using ex_undo_remove_ok(1) by (metis prod.collapse)
  have w: "\<not> fails env0 Write_config" by (simp add: env0_def)
  have em: "last_action (cfg (state1\<lparr>cfg := cfg0\<lparr>last_action := Some []\<rparr>\<rparr>)) = Some []" by simp
  show ?thesis
    using ok w em
      undo_single_shot[where s = state1 and e = env0 and m = "Restored ''x.prompt.md''"
        and s' = s1 and e' = env0]
      undo_single_shot[where s = "state1\<lparr>cfg := cfg0\<lparr>last_action := Some []\<rparr>\<rparr>" and e = env0]
    by simp
qed

text \<open>
  C5. Trashing keeps the bytes. Every call of remove, add or rename that reaches the
  trashing of a regular file leaves its bytes either in the file \<open>{now}_{name}\<close>
  directly inside \<open>root/.trash\<close>, where \<open>now\<close> is the Unix time and \<open>name\<close> the name the
  file had in the root, or at the path where they were.

  When the call succeeds, that trash file holds the bytes and \<open>root/.trash\<close> is a
  directory, created when it was absent. When the call does not succeed (a failure
  return or an exception), the bytes are at their original path: the trashing did not
  happen, or it failed and left the file, or the final move failed and the file was
  moved back. The one other case is an add or rename whose final move and whose
  restore are both refused: then the trash file holds the bytes and \<open>root/.trash\<close> is a
  directory.

  The trash holds files only (no directory has the name of the trashed file); for the
  successful calls, the source of an add is a regular file and the old name of a rename
  is a name without a slash.
\<close>

theorem trash_keeps_bytes:
  assumes wf: "wf_path root"
  shows
    "(remove_prompt e root name yes s = (Returned (True, m), s1) \<and>
      fs s (key e (join_str root (candidate_of name))) = Some (File bytes) \<and>
      fs s (key e root @ [''.trash'', trash_name e (join_str root (candidate_of name))]) \<noteq> Some Dir
      \<longrightarrow>
        fs s1 (key e root @ [''.trash'',
                 str_nat (now e) @ ''_'' @ path_name (join_str root (candidate_of name))])
          = Some (File bytes) \<and>
        fs s1 (key e root @ [''.trash'']) = Some Dir) \<and>
     (add_file e root src force s = (Returned (True, m), s1) \<and>
      wf_path src \<and> parts src \<noteq> [] \<and> fs s (key e src) = Some (File new) \<and>
      fs s (key e (join_str root (add_base src))) = Some (File bytes) \<and>
      fs s (key e root @ [''.trash'', trash_name e (join_str root (add_base src))]) \<noteq> Some Dir
      \<longrightarrow>
        fs s1 (key e root @ [''.trash'',
                 str_nat (now e) @ ''_'' @ path_name (join_str root (add_base src))])
          = Some (File bytes) \<and>
        fs s1 (key e root @ [''.trash'']) = Some Dir) \<and>
     (rename_prompt e root old new force s = (Returned (True, m), s1) \<and>
      CHR ''/'' \<notin> set old \<and> fs s (key e (join_str root (candidate_of old))) = Some (File a) \<and>
      fs s (key e (join_str root (candidate_of new))) = Some (File bytes) \<and>
      fs s (key e root @ [''.trash'', trash_name e (join_str root (candidate_of new))]) \<noteq> Some Dir
      \<longrightarrow>
        fs s1 (key e root @ [''.trash'',
                 str_nat (now e) @ ''_'' @ path_name (join_str root (candidate_of new))])
          = Some (File bytes) \<and>
        fs s1 (key e root @ [''.trash'']) = Some Dir) \<and>
     (remove_prompt e root name yes s = (r, s2) \<and> \<not> succeeded r \<and>
      fs s (key e (join_str root (candidate_of name))) = Some (File bytes)
      \<longrightarrow>
        fs s2 (key e (join_str root (candidate_of name))) = Some (File bytes)) \<and>
     (add_file e root src force s = (r, s2) \<and> \<not> succeeded r \<and> wf_path src \<and>
      fs s (key e (join_str root (add_base src))) = Some (File bytes) \<and>
      fs s (key e root @ [''.trash'', trash_name e (join_str root (add_base src))]) \<noteq> Some Dir
      \<longrightarrow>
        fs s2 (key e (join_str root (add_base src))) = Some (File bytes) \<or>
        (r = Returned (False, Failed_move) \<and> fails e Move_rollback \<and>
         fs s2 (key e root @ [''.trash'',
                  str_nat (now e) @ ''_'' @ path_name (join_str root (add_base src))])
           = Some (File bytes) \<and>
         fs s2 (key e root @ [''.trash'']) = Some Dir)) \<and>
     (rename_prompt e root old new force s = (r, s2) \<and> \<not> succeeded r \<and>
      fs s (key e (join_str root (candidate_of new))) = Some (File bytes) \<and>
      fs s (key e root @ [''.trash'', trash_name e (join_str root (candidate_of new))]) \<noteq> Some Dir
      \<longrightarrow>
        fs s2 (key e (join_str root (candidate_of new))) = Some (File bytes) \<or>
        (r = Returned (False, Failed_rename) \<and> fails e Move_rollback \<and>
         fs s2 (key e root @ [''.trash'',
                  str_nat (now e) @ ''_'' @ path_name (join_str root (candidate_of new))])
           = Some (File bytes) \<and>
         fs s2 (key e root @ [''.trash'']) = Some Dir))"
proof -
  have k: "\<And>p. key e (join_str (join_str root ''.trash'') (trash_name e (join_str root p)))
             = key e root @ [''.trash'', trash_name e (join_str root p)]"
    by (rule key_trashed[OF wf_join_str[OF wf]])
  have c1: "fs s1 (key e root @ [''.trash'',
                 str_nat (now e) @ ''_'' @ path_name (join_str root (candidate_of name))])
              = Some (File bytes) \<and>
            fs s1 (key e root @ [''.trash'']) = Some Dir"
    if ok: "remove_prompt e root name yes s = (Returned (True, m), s1)"
      and f: "fs s (key e (join_str root (candidate_of name))) = Some (File bytes)"
      and n: "fs s (key e root @ [''.trash'', trash_name e (join_str root (candidate_of name))])
                \<noteq> Some Dir"
    using remove_prompt_trash_dir[OF ok f n[folded k] wf] by (simp add: trash_name_def)
  have c2: "fs s1 (key e root @ [''.trash'',
                 str_nat (now e) @ ''_'' @ path_name (join_str root (add_base src))])
              = Some (File bytes) \<and>
            fs s1 (key e root @ [''.trash'']) = Some Dir"
    if ok: "add_file e root src force s = (Returned (True, m), s1)"
      and ws: "wf_path src" and nm: "parts src \<noteq> []"
      and sf: "fs s (key e src) = Some (File new)"
      and f: "fs s (key e (join_str root (add_base src))) = Some (File bytes)"
      and n: "fs s (key e root @ [''.trash'', trash_name e (join_str root (add_base src))])
                \<noteq> Some Dir"
    using add_file_overwrite_success(1,3)[OF ok wf ws nm sf f n[folded k]]
    unfolding k by (simp add: trash_name_def)
  have c3: "fs s1 (key e root @ [''.trash'',
                 str_nat (now e) @ ''_'' @ path_name (join_str root (candidate_of new))])
              = Some (File bytes) \<and>
            fs s1 (key e root @ [''.trash'']) = Some Dir"
    if ok: "rename_prompt e root old new force s = (Returned (True, m), s1)"
      and fl: "CHR ''/'' \<notin> set old"
      and o: "fs s (key e (join_str root (candidate_of old))) = Some (File a)"
      and f: "fs s (key e (join_str root (candidate_of new))) = Some (File bytes)"
      and n: "fs s (key e root @ [''.trash'', trash_name e (join_str root (candidate_of new))])
                \<noteq> Some Dir"
    using rename_overwrite_success(1,3)[OF ok wf fl o f n[folded k]]
    unfolding k by (simp add: trash_name_def)
  have c4: "fs s2 (key e (join_str root (candidate_of name))) = Some (File bytes)"
    if res: "remove_prompt e root name yes s = (r, s2)" and nf: "\<not> succeeded r"
      and f: "fs s (key e (join_str root (candidate_of name))) = Some (File bytes)"
    by (rule remove_prompt_not_success[OF res nf f])
  have c5: "fs s2 (key e (join_str root (add_base src))) = Some (File bytes) \<or>
        (r = Returned (False, Failed_move) \<and> fails e Move_rollback \<and>
         fs s2 (key e root @ [''.trash'',
                  str_nat (now e) @ ''_'' @ path_name (join_str root (add_base src))])
           = Some (File bytes) \<and>
         fs s2 (key e root @ [''.trash'']) = Some Dir)"
    if res: "add_file e root src force s = (r, s2)" and nf: "\<not> succeeded r"
      and ws: "wf_path src"
      and f: "fs s (key e (join_str root (add_base src))) = Some (File bytes)"
      and n: "fs s (key e root @ [''.trash'', trash_name e (join_str root (add_base src))])
                \<noteq> Some Dir"
    using add_file_not_success[OF res nf wf ws f n[folded k]]
    unfolding k by (simp add: trash_name_def)
  have c6: "fs s2 (key e (join_str root (candidate_of new))) = Some (File bytes) \<or>
        (r = Returned (False, Failed_rename) \<and> fails e Move_rollback \<and>
         fs s2 (key e root @ [''.trash'',
                  str_nat (now e) @ ''_'' @ path_name (join_str root (candidate_of new))])
           = Some (File bytes) \<and>
         fs s2 (key e root @ [''.trash'']) = Some Dir)"
    if res: "rename_prompt e root old new force s = (r, s2)" and nf: "\<not> succeeded r"
      and f: "fs s (key e (join_str root (candidate_of new))) = Some (File bytes)"
      and n: "fs s (key e root @ [''.trash'', trash_name e (join_str root (candidate_of new))])
                \<noteq> Some Dir"
    using rename_prompt_not_success[OF res nf wf f n[folded k]]
    unfolding k by (simp add: trash_name_def)
  show ?thesis
    apply (intro conjI impI)
    subgoal using c1 by blast
    subgoal using c1 by blast
    subgoal using c2 by blast
    subgoal using c2 by blast
    subgoal using c3 by blast
    subgoal using c3 by blast
    subgoal using c4 by blast
    subgoal using c5 by blast
    subgoal using c6 by blast
    done
qed

theorem trash_keeps_bytes_witness:
  "wf_path root0 \<and> tree0 [''r'', ''.trash''] = None \<and>
   fst (remove_prompt env0 root0 ''a'' True state0) = Returned (True, Removed ''a.prompt.md'') \<and>
   fs (snd (remove_prompt env0 root0 ''a'' True state0)) [''r'', ''.trash'', ''7_a.prompt.md'']
     = Some (File ''alpha'') \<and>
   fs (snd (remove_prompt env0 root0 ''a'' True state0)) [''r'', ''.trash''] = Some Dir \<and>
   fst (add_file env0 root0 (Path False [''a'']) True state0)
     = Returned (True, Added ''a.prompt.md'' ''a'') \<and>
   fs (snd (add_file env0 root0 (Path False [''a'']) True state0))
      [''r'', ''.trash'', ''7_a.prompt.md''] = Some (File ''alpha'') \<and>
   fs (snd (add_file env0 root0 (Path False [''a'']) True state0)) [''r'', ''.trash''] = Some Dir \<and>
   fst (rename_prompt env0 root0 ''a'' ''b'' True state0)
     = Returned (True, Renamed ''a.prompt.md'' ''b.prompt.md'') \<and>
   fs (snd (rename_prompt env0 root0 ''a'' ''b'' True state0))
      [''r'', ''.trash'', ''7_b.prompt.md''] = Some (File ''beta'') \<and>
   fs (snd (rename_prompt env0 root0 ''a'' ''b'' True state0)) [''r'', ''.trash''] = Some Dir \<and>
   fst (remove_prompt env_trash_refused root0 ''a'' True state0)
     = Returned (False, Failed_remove) \<and>
   fs (snd (remove_prompt env_trash_refused root0 ''a'' True state0)) [''r'', ''a.prompt.md'']
     = Some (File ''alpha'') \<and>
   fst (add_file env_final_refused root0 (Path False [''a'']) True state0)
     = Returned (False, Failed_move) \<and>
   fs (snd (add_file env_final_refused root0 (Path False [''a'']) True state0))
      [''r'', ''a.prompt.md''] = Some (File ''alpha'') \<and>
   fst (add_file env_restore_refused root0 (Path False [''a'']) True state0)
     = Returned (False, Failed_move) \<and>
   fs (snd (add_file env_restore_refused root0 (Path False [''a'']) True state0))
      [''r'', ''.trash'', ''7_a.prompt.md''] = Some (File ''alpha'') \<and>
   fst (rename_prompt env_final_refused root0 ''a'' ''b'' True state0)
     = Returned (False, Failed_rename) \<and>
   fs (snd (rename_prompt env_final_refused root0 ''a'' ''b'' True state0))
      [''r'', ''b.prompt.md''] = Some (File ''beta'')"
proof -
  define s1 where "s1 = snd (remove_prompt env0 root0 ''a'' True state0)"
  define s2 where "s2 = snd (add_file env0 root0 (Path False [''a'']) True state0)"
  define s3 where "s3 = snd (rename_prompt env0 root0 ''a'' ''b'' True state0)"
  define s4 where "s4 = snd (remove_prompt env_trash_refused root0 ''a'' True state0)"
  define s5 where "s5 = snd (add_file env_final_refused root0 (Path False [''a'']) True state0)"
  define s6 where "s6 = snd (add_file env_restore_refused root0 (Path False [''a'']) True state0)"
  define s7 where "s7 = snd (rename_prompt env_final_refused root0 ''a'' ''b'' True state0)"
  have wf: "wf_path root0" by (simp add: wf_path_def valid_part_def root0_def)
  have ok1: "remove_prompt env0 root0 ''a'' True state0 = (Returned (True, Removed ''a.prompt.md''), s1)"
    unfolding s1_def using ex_remove_a(1) by (metis prod.collapse)
  have ok2: "add_file env0 root0 (Path False [''a'']) True state0
               = (Returned (True, Added ''a.prompt.md'' ''a''), s2)"
    unfolding s2_def using ex_add_a by (metis prod.collapse)
  have ok3: "rename_prompt env0 root0 ''a'' ''b'' True state0
               = (Returned (True, Renamed ''a.prompt.md'' ''b.prompt.md''), s3)"
    unfolding s3_def using ex_rename_ab by (metis prod.collapse)
  have ko4: "remove_prompt env_trash_refused root0 ''a'' True state0
               = (Returned (False, Failed_remove), s4)"
    unfolding s4_def using ex_remove_refused by (metis prod.collapse)
  have ko5: "add_file env_final_refused root0 (Path False [''a'']) True state0
               = (Returned (False, Failed_move), s5)"
    unfolding s5_def using ex_add_refused(1) by (metis prod.collapse)
  have ko6: "add_file env_restore_refused root0 (Path False [''a'']) True state0
               = (Returned (False, Failed_move), s6)"
    unfolding s6_def using ex_add_refused(2) by (metis prod.collapse)
  have ko7: "rename_prompt env_final_refused root0 ''a'' ''b'' True state0
               = (Returned (False, Failed_rename), s7)"
    unfolding s7_def using ex_rename_refused by (metis prod.collapse)
  have gone6: "fs s6 [''r'', ''a.prompt.md''] = None"
    unfolding s6_def by (rule ex_add_refused(3))
  have hs: "wf_path (Path False [''a''])" "parts (Path False [''a'']) \<noteq> []"
    "CHR ''/'' \<notin> set ''a''"
    by (simp_all add: wf_path_def valid_part_def)
  note th = trash_keeps_bytes[OF wf, where s = state0]
  have r1: "fs s1 [''r'', ''.trash'', ''7_a.prompt.md''] = Some (File ''alpha'') \<and>
            fs s1 [''r'', ''.trash''] = Some Dir"
    using ok1 th[where e = env0 and name = "''a''" and yes = True and m = "Removed ''a.prompt.md''"
        and ?s1.0 = s1 and bytes = "''alpha''"]
    by (simp add: ex_paths ex_tree0 ex_names str_nat_7)
  have r2: "fs s2 [''r'', ''.trash'', ''7_a.prompt.md''] = Some (File ''alpha'') \<and>
            fs s2 [''r'', ''.trash''] = Some Dir"
    using ok2 hs th[where e = env0 and src = "Path False [''a'']" and force = True
        and m = "Added ''a.prompt.md'' ''a''" and ?s1.0 = s2 and new = "''new''"
        and bytes = "''alpha''"]
    by (simp add: ex_add_paths ex_paths ex_tree0 ex_names str_nat_7)
  have r3: "fs s3 [''r'', ''.trash'', ''7_b.prompt.md''] = Some (File ''beta'') \<and>
            fs s3 [''r'', ''.trash''] = Some Dir"
    using ok3 hs th[where e = env0 and old = "''a''" and new = "''b''" and force = True
        and m = "Renamed ''a.prompt.md'' ''b.prompt.md''" and ?s1.0 = s3 and a = "''alpha''"
        and bytes = "''beta''"]
    by (simp add: ex_paths ex_tree0 ex_names str_nat_7)
  have r4: "fs s4 [''r'', ''a.prompt.md''] = Some (File ''alpha'')"
    using ko4 th[where e = env_trash_refused and name = "''a''" and yes = True
        and r = "Returned (False, Failed_remove)" and ?s2.0 = s4 and bytes = "''alpha''"]
    by (simp add: ex_paths ex_tree0)
  have r5: "fs s5 [''r'', ''a.prompt.md''] = Some (File ''alpha'')"
    using ko5 hs th[where e = env_final_refused and src = "Path False [''a'']" and force = True
        and r = "Returned (False, Failed_move)" and ?s2.0 = s5 and bytes = "''alpha''"]
    by (simp add: ex_add_paths ex_paths ex_refused_paths ex_tree0 ex_names)
  have r6: "fs s6 [''r'', ''.trash'', ''7_a.prompt.md''] = Some (File ''alpha'')"
    using ko6 hs gone6 th[where e = env_restore_refused and src = "Path False [''a'']"
        and force = True and r = "Returned (False, Failed_move)" and ?s2.0 = s6
        and bytes = "''alpha''"]
    by (simp add: ex_add_paths ex_paths ex_refused_paths ex_tree0 ex_names str_nat_7)
  have r7: "fs s7 [''r'', ''b.prompt.md''] = Some (File ''beta'')"
    using ko7 th[where e = env_final_refused and old = "''a''" and new = "''b''" and force = True
        and r = "Returned (False, Failed_rename)" and ?s2.0 = s7 and bytes = "''beta''"]
    by (simp add: ex_paths ex_refused_paths ex_tree0 ex_names)
  show ?thesis
    using wf ex_tree0(4) ex_remove_a(1) ex_add_a ex_rename_ab ex_remove_refused
      ex_add_refused(1,2) ex_rename_refused r1 r2 r3 r4 r5 r6 r7
    unfolding s1_def s2_def s3_def s4_def s5_def s6_def s7_def by blast
qed

text \<open>
  C6. The rollback of an add. The destination is a regular file with bytes \<open>old\<close> and
  has been moved to the trash; the move of the source to the destination fails. Then
  \<open>add_file\<close> returns \<open>Failed to move\<close> (an \<open>IOError\<close>), whether or not the restore from
  the trash works: when the system does not refuse the restore, \<open>old\<close> is back at the
  destination; when it does, \<open>old\<close> stays in the trash under \<open>{now}_{name}\<close>. A source
  that is a regular file elsewhere keeps its bytes, and the configuration is unchanged.
  The second part shows that the failure return is reached when the system refuses the
  final move. (No directory has the name of the trashed file.)
\<close>

theorem add_rollback:
  assumes wf: "wf_path root" and wfs: "wf_path src"
    and destfile: "fs s (key e (join_str root (add_base src))) = Some (File old)"
    and nodir: "fs s (key e root @ [''.trash'', trash_name e (join_str root (add_base src))])
                  \<noteq> Some Dir"
  shows
    "(add_file e root src force s = (Returned (False, Failed_move), s1) \<longrightarrow>
        (fs s1 (key e (join_str root (add_base src))) = Some (File old) \<or>
         fs s1 (key e root @ [''.trash'', trash_name e (join_str root (add_base src))])
           = Some (File old)) \<and>
        (\<not> fails e Move_rollback \<longrightarrow>
           fs s1 (key e (join_str root (add_base src))) = Some (File old)) \<and>
        (fails e Move_rollback \<longrightarrow>
           fs s1 (key e root @ [''.trash'', trash_name e (join_str root (add_base src))])
             = Some (File old)) \<and>
        (parts src \<noteq> [] \<and> key e src \<noteq> key e (join_str root (add_base src)) \<and>
         fs s (key e src) = Some (File new) \<longrightarrow> fs s1 (key e src) = Some (File new)) \<and>
        cfg s1 = cfg s \<and> disk s1 = disk s) \<and>
     (path_exists e (fs s) src \<and> (force \<or> affirmative (answer e)) \<and>
      \<not> fails e Mkdir_trash \<and>
      \<not> list_ex (is_file (fs s)) (prefixes (key e root @ [''.trash''])) \<and>
      \<not> fails e Move_to_trash \<and> fails e Move_final \<longrightarrow>
        fst (add_file e root src force s) = Returned (False, Failed_move) \<and>
        fails_with (fst (add_file e root src force s)) IOError)"
proof (intro conjI impI)
  have k: "key e (join_str (join_str root ''.trash'') (trash_name e (join_str root (add_base src))))
             = key e root @ [''.trash'', trash_name e (join_str root (add_base src))]"
    by (rule key_trashed[OF wf_join_str[OF wf]])
  note nodir' = nodir[folded k]
  {
    assume res: "add_file e root src force s = (Returned (False, Failed_move), s1)"
    note r = add_file_rollback[OF res wf wfs destfile nodir', unfolded k]
    show a: "\<not> fails e Move_rollback \<Longrightarrow>
             fs s1 (key e (join_str root (add_base src))) = Some (File old)"
      using r(1) by simp
    show b: "fails e Move_rollback \<Longrightarrow>
             fs s1 (key e root @ [''.trash'', trash_name e (join_str root (add_base src))])
               = Some (File old)"
      using r(2) by simp
    show "fs s1 (key e (join_str root (add_base src))) = Some (File old) \<or>
          fs s1 (key e root @ [''.trash'', trash_name e (join_str root (add_base src))])
            = Some (File old)"
      using a b by blast
    show "fs s1 (key e src) = Some (File new)"
      if "parts src \<noteq> [] \<and> key e src \<noteq> key e (join_str root (add_base src)) \<and>
          fs s (key e src) = Some (File new)"
      using r(3) that by simp
    have "\<not> succeeded (Returned (False, Failed_move))" by simp
    from add_file_failure[OF res this]
    show "cfg s1 = cfg s" and "disk s1 = disk s" by simp_all
  }
  {
    assume h: "path_exists e (fs s) src \<and> (force \<or> affirmative (answer e)) \<and>
      \<not> fails e Mkdir_trash \<and>
      \<not> list_ex (is_file (fs s)) (prefixes (key e root @ [''.trash''])) \<and>
      \<not> fails e Move_to_trash \<and> fails e Move_final"
    then show f: "fst (add_file e root src force s) = Returned (False, Failed_move)"
      using add_file_final_refused[OF _ wf wfs destfile nodir'] by blast
    then show "fails_with (fst (add_file e root src force s)) IOError"
      by (simp add: fails_with_def)
  }
qed

theorem add_rollback_witness:
  "wf_path root0 \<and> wf_path (Path False [''a'']) \<and>
   fs state0 (key env0 (join_str root0 (add_base (Path False [''a''])))) = Some (File ''alpha'') \<and>
   fst (add_file env_final_refused root0 (Path False [''a'']) True state0)
     = Returned (False, Failed_move) \<and>
   fs (snd (add_file env_final_refused root0 (Path False [''a'']) True state0))
      [''r'', ''a.prompt.md''] = Some (File ''alpha'') \<and>
   fs (snd (add_file env_final_refused root0 (Path False [''a'']) True state0))
      [''home'', ''a''] = Some (File ''new'') \<and>
   fst (add_file env_restore_refused root0 (Path False [''a'']) True state0)
     = Returned (False, Failed_move) \<and>
   fs (snd (add_file env_restore_refused root0 (Path False [''a'']) True state0))
      [''r'', ''.trash'', ''7_a.prompt.md''] = Some (File ''alpha'') \<and>
   fs (snd (add_file env_restore_refused root0 (Path False [''a'']) True state0))
      [''home'', ''a''] = Some (File ''new'') \<and>
   disk (snd (add_file env_restore_refused root0 (Path False [''a'']) True state0)) = cfg0"
proof -
  define s1 where "s1 = snd (add_file env_final_refused root0 (Path False [''a'']) True state0)"
  define s2 where "s2 = snd (add_file env_restore_refused root0 (Path False [''a'']) True state0)"
  have wf: "wf_path root0" and wfs: "wf_path (Path False [''a''])"
    by (simp_all add: wf_path_def valid_part_def root0_def)
  have d0: "fs state0 (key env0 (join_str root0 (add_base (Path False [''a''])))) = Some (File ''alpha'')"
    by (simp add: ex_add_paths ex_tree0)
  have n0: "fs state0 (key env0 root0 @ [''.trash'',
              trash_name env0 (join_str root0 (add_base (Path False [''a''])))]) \<noteq> Some Dir"
    by (simp add: ex_add_paths ex_paths ex_tree0 ex_names)
  have pre: "\<not> list_ex (is_file (fs state0)) (prefixes (key env0 root0 @ [''.trash'']))"
    by (simp add: ex_names is_file_def tree0_def)
  have sx: "path_exists env0 (fs state0) (Path False [''a''])"
    by (simp add: path_exists_def ex_tree0)
  note t1 = add_rollback[where e = env_final_refused and root = root0 and src = "Path False [''a'']"
      and s = state0 and old = "''alpha''" and force = True and ?s1.0 = s1 and new = "''new''",
      unfolded ex_refused_paths, OF wf wfs d0 n0]
  note t2 = add_rollback[where e = env_restore_refused and root = root0 and src = "Path False [''a'']"
      and s = state0 and old = "''alpha''" and force = True and ?s1.0 = s2 and new = "''new''",
      unfolded ex_refused_paths, OF wf wfs d0 n0]
  have f1: "fst (add_file env_final_refused root0 (Path False [''a'']) True state0)
              = Returned (False, Failed_move)"
    using t1 pre sx by (simp add: path_exists_def ex_refused_paths)
  have f2: "fst (add_file env_restore_refused root0 (Path False [''a'']) True state0)
              = Returned (False, Failed_move)"
    using t2 pre sx by (simp add: path_exists_def ex_refused_paths)
  have ok1: "add_file env_final_refused root0 (Path False [''a'']) True state0
               = (Returned (False, Failed_move), s1)"
    unfolding s1_def using f1 by (metis prod.collapse)
  have ok2: "add_file env_restore_refused root0 (Path False [''a'']) True state0
               = (Returned (False, Failed_move), s2)"
    unfolding s2_def using f2 by (metis prod.collapse)
  have r1: "fs s1 [''r'', ''a.prompt.md''] = Some (File ''alpha'') \<and>
            fs s1 [''home'', ''a''] = Some (File ''new'')"
    using t1 ok1 by (simp add: ex_add_paths ex_paths ex_tree0 ex_names)
  have r2: "fs s2 [''r'', ''.trash'', ''7_a.prompt.md''] = Some (File ''alpha'') \<and>
            fs s2 [''home'', ''a''] = Some (File ''new'') \<and> disk s2 = cfg0"
    using t2 ok2 by (simp add: ex_add_paths ex_paths ex_tree0 ex_names)
  show ?thesis
    using wf wfs d0 f1 f2 r1 r2 unfolding s1_def s2_def by blast
qed

text \<open>
  C7. A successful rename of \<open>old\<close> to \<open>new\<close> with the overwrite flag set, where both
  prompts are regular files in the root: afterwards the bytes that \<open>new\<close> had are in the
  trash under \<open>{now}_{name of new}\<close>, the old path is gone, the new path holds the
  bytes that \<open>old\<close> had, and the log holds the entry with the keys \<open>action\<close> (rename),
  \<open>old\<close>, \<open>new\<close> and \<open>overwritten_trash\<close>; the configuration file holds it too when
  its write went through. The old name has no slash, and no directory has the name of
  the trashed file.
\<close>

theorem rename_overwrite:
  assumes wf: "wf_path root" and flat: "CHR ''/'' \<notin> set old"
    and oldfile: "fs s (key e (join_str root (candidate_of old))) = Some (File a)"
    and newfile: "fs s (key e (join_str root (candidate_of new))) = Some (File b)"
    and nodir: "fs s (key e root @ [''.trash'', trash_name e (join_str root (candidate_of new))])
                  \<noteq> Some Dir"
    and ok: "rename_prompt e root old new True s = (Returned (True, m), s1)"
  shows "fs s1 (key e root @ [''.trash'', trash_name e (join_str root (candidate_of new))])
           = Some (File b) \<and>
         fs s1 (key e (join_str root (candidate_of old))) = None \<and>
         fs s1 (key e (join_str root (candidate_of new))) = Some (File a) \<and>
         last_action (cfg s1) =
           Some [(''action'', ''rename''),
                 (''old'', str_path (join_str root (candidate_of old))),
                 (''new'', str_path (join_str root (candidate_of new))),
                 (''overwritten_trash'',
                    str_path (join_str (join_str root ''.trash'')
                       (trash_name e (join_str root (candidate_of new)))))] \<and>
         (\<not> fails e Write_config \<longrightarrow> disk s1 = cfg s1)"
proof -
  have k: "key e (join_str (join_str root ''.trash'') (trash_name e (join_str root (candidate_of new))))
             = key e root @ [''.trash'', trash_name e (join_str root (candidate_of new))]"
    by (rule key_trashed[OF wf_join_str[OF wf]])
  note r = rename_overwrite_success[OF ok wf flat oldfile newfile nodir[folded k]]
  show ?thesis
    using r(1,2,4,5,6) unfolding k by simp
qed

theorem rename_overwrite_witness:
  "wf_path root0 \<and> CHR ''/'' \<notin> set ''a'' \<and>
   fs state0 (key env0 (join_str root0 (candidate_of ''a''))) = Some (File ''alpha'') \<and>
   fs state0 (key env0 (join_str root0 (candidate_of ''b''))) = Some (File ''beta'') \<and>
   fs state0 (key env0 root0 @ [''.trash'', trash_name env0 (join_str root0 (candidate_of ''b''))])
     \<noteq> Some Dir \<and>
   fst (rename_prompt env0 root0 ''a'' ''b'' True state0)
     = Returned (True, Renamed ''a.prompt.md'' ''b.prompt.md'') \<and>
   fs (snd (rename_prompt env0 root0 ''a'' ''b'' True state0))
      [''r'', ''.trash'', ''7_b.prompt.md''] = Some (File ''beta'') \<and>
   fs (snd (rename_prompt env0 root0 ''a'' ''b'' True state0)) [''r'', ''a.prompt.md''] = None \<and>
   fs (snd (rename_prompt env0 root0 ''a'' ''b'' True state0)) [''r'', ''b.prompt.md'']
     = Some (File ''alpha'') \<and>
   last_action (cfg (snd (rename_prompt env0 root0 ''a'' ''b'' True state0)))
     = Some [(''action'', ''rename''), (''old'', ''/r/a.prompt.md''),
             (''new'', ''/r/b.prompt.md''),
             (''overwritten_trash'', ''/r/.trash/7_b.prompt.md'')] \<and>
   disk (snd (rename_prompt env0 root0 ''a'' ''b'' True state0))
     = cfg (snd (rename_prompt env0 root0 ''a'' ''b'' True state0))"
proof -
  define s3 where "s3 = snd (rename_prompt env0 root0 ''a'' ''b'' True state0)"
  have wf: "wf_path root0" by (simp add: wf_path_def valid_part_def root0_def)
  have fl: "CHR ''/'' \<notin> set ''a''" by simp
  have o: "fs state0 (key env0 (join_str root0 (candidate_of ''a''))) = Some (File ''alpha'')"
    by (simp add: ex_paths ex_tree0)
  have n: "fs state0 (key env0 (join_str root0 (candidate_of ''b''))) = Some (File ''beta'')"
    by (simp add: ex_paths ex_tree0)
  have d: "fs state0 (key env0 root0 @ [''.trash'',
             trash_name env0 (join_str root0 (candidate_of ''b''))]) \<noteq> Some Dir"
    by (simp add: ex_paths ex_tree0 ex_names)
  have ok: "rename_prompt env0 root0 ''a'' ''b'' True state0
               = (Returned (True, Renamed ''a.prompt.md'' ''b.prompt.md''), s3)"
    unfolding s3_def using ex_rename_ab by (metis prod.collapse)
  have r: "fs s3 [''r'', ''.trash'', ''7_b.prompt.md''] = Some (File ''beta'') \<and>
           fs s3 [''r'', ''a.prompt.md''] = None \<and>
           fs s3 [''r'', ''b.prompt.md''] = Some (File ''alpha'') \<and>
           last_action (cfg s3)
             = Some [(''action'', ''rename''), (''old'', ''/r/a.prompt.md''),
                     (''new'', ''/r/b.prompt.md''),
                     (''overwritten_trash'', ''/r/.trash/7_b.prompt.md'')] \<and>
           disk s3 = cfg s3"
    using rename_overwrite[OF wf fl o n d ok]
    by (simp add: ex_paths ex_names str_path_def)
  show ?thesis
    using wf fl o n d ex_rename_ab r unfolding s3_def by blast
qed

text \<open>
  C8. The destination name of an add is the name of the source with \<open>.prompt.md\<close>
  appended when the name does not end with it, and the name of the source unchanged when
  it does. It is the last component of the destination path, the name in the message of
  a successful add and the \<open>dest\<close> of its log entry.
\<close>

theorem add_suffix_normalised:
  assumes "wf_path src"
  shows "(\<not> endswith (path_name src) SUFFIX \<longrightarrow> add_base src = path_name src @ SUFFIX) \<and>
         (endswith (path_name src) SUFFIX \<longrightarrow> add_base src = path_name src) \<and>
         path_name (join_str root (add_base src)) = add_base src \<and>
         (add_file e root src force s = (Returned (True, m), s') \<longrightarrow>
            m = Added (add_base src) (take (length (add_base src) - length SUFFIX) (add_base src)) \<and>
            (\<exists>en. last_action (cfg s') = Some en \<and>
                  get en ''dest'' = Some (str_path (join_str root (add_base src)))))"
  using name_join_valid[OF valid_add_base[OF assms], of root] add_file_success[of e root src force s m s']
  by (auto simp: add_base_def)

theorem add_suffix_normalised_witness:
  "wf_path (Path False [''notes'']) \<and> wf_path (Path False [''notes.prompt.md'']) \<and>
   path_name (join_str root0 (add_base (Path False [''notes'']))) = ''notes.prompt.md'' \<and>
   path_name (join_str root0 (add_base (Path False [''notes.prompt.md'']))) = ''notes.prompt.md'' \<and>
   fst (add_file env0 root0 (Path False [''notes'']) False state0)
     = Returned (True, Added ''notes.prompt.md'' ''notes'')"
proof -
  have n1: "\<not> endswith (path_name (Path False [''notes''])) SUFFIX"
    and n2: "endswith (path_name (Path False [''notes.prompt.md''])) SUFFIX"
    by (simp_all add: endswith_def SUFFIX_def path_name_def)
  have a1: "add_base (Path False [''notes'']) = ''notes.prompt.md''"
    using n1 add_suffix_normalised[OF ex_wf(1)] by (simp add: path_name_def SUFFIX_def)
  have a2: "add_base (Path False [''notes.prompt.md'']) = ''notes.prompt.md''"
    using n2 add_suffix_normalised[OF ex_wf(2)] by (simp add: path_name_def)
  have b1: "path_name (join_str root0 (add_base (Path False [''notes'']))) = ''notes.prompt.md''"
    using add_suffix_normalised[OF ex_wf(1), where root = root0] a1 by metis
  have b2: "path_name (join_str root0 (add_base (Path False [''notes.prompt.md''])))
              = ''notes.prompt.md''"
    using add_suffix_normalised[OF ex_wf(2), where root = root0] a2 by metis
  show ?thesis
    using b1 b2 ex_wf(1,2) ex_add_notes(1) by blast
qed

text \<open>
  C9. An undo of a log entry whose action is neither \<open>add\<close> nor \<open>remove\<close> returns
  \<open>unknown last action\<close> (an \<open>UnknownActionError\<close>) and changes nothing. The entry that a
  successful rename writes is of this kind: undoing it fails and the rename stays.
\<close>

theorem undo_unknown_action:
  "(last_action (cfg s) = Some entry \<and> entry \<noteq> [] \<and>
    get entry ''action'' \<noteq> Some ''remove'' \<and> get entry ''action'' \<noteq> Some ''add'' \<longrightarrow>
      perform_undo e s = (Returned (False, Unknown_action), s) \<and>
      fails_with (fst (perform_undo e s)) UnknownActionError) \<and>
   (rename_prompt e0 root old new force s0 = (Returned (True, m), s) \<longrightarrow>
      perform_undo e s = (Returned (False, Unknown_action), s) \<and>
      fails_with (fst (perform_undo e s)) UnknownActionError)"
proof (intro conjI impI)
  assume a: "last_action (cfg s) = Some entry \<and> entry \<noteq> [] \<and>
    get entry ''action'' \<noteq> Some ''remove'' \<and> get entry ''action'' \<noteq> Some ''add''"
  then show u: "perform_undo e s = (Returned (False, Unknown_action), s)"
    by (simp add: perform_undo_unknown)
  then show "fails_with (fst (perform_undo e s)) UnknownActionError"
    by (simp add: fails_with_def)
next
  assume r: "rename_prompt e0 root old new force s0 = (Returned (True, m), s)"
  from rename_prompt_action[OF r] obtain en where
    "last_action (cfg s) = Some en" "en \<noteq> []" "get en ''action'' = Some ''rename''"
    by blast
  then show u: "perform_undo e s = (Returned (False, Unknown_action), s)"
    by (simp add: perform_undo_unknown)
  then show "fails_with (fst (perform_undo e s)) UnknownActionError"
    by (simp add: fails_with_def)
qed

theorem undo_unknown_action_witness:
  "fst (rename_prompt env0 root0 ''a'' ''c'' False state0)
     = Returned (True, Renamed ''a.prompt.md'' ''c.prompt.md'') \<and>
   fst (perform_undo env0 (snd (rename_prompt env0 root0 ''a'' ''c'' False state0)))
     = Returned (False, Unknown_action) \<and>
   fs (snd (perform_undo env0 (snd (rename_prompt env0 root0 ''a'' ''c'' False state0))))
      [''r'', ''a.prompt.md''] = None \<and>
   perform_undo env0 (state0\<lparr>cfg := cfg0\<lparr>last_action := Some [(''action'', ''copy'')]\<rparr>\<rparr>)
     = (Returned (False, Unknown_action),
        state0\<lparr>cfg := cfg0\<lparr>last_action := Some [(''action'', ''copy'')]\<rparr>\<rparr>)"
proof -
  define s1 where "s1 = snd (rename_prompt env0 root0 ''a'' ''c'' False state0)"
  have ok: "rename_prompt env0 root0 ''a'' ''c'' False state0
              = (Returned (True, Renamed ''a.prompt.md'' ''c.prompt.md''), s1)"
    unfolding s1_def using ex_rename_ac(1) by (metis prod.collapse)
  have u: "perform_undo env0 s1 = (Returned (False, Unknown_action), s1)"
    using ok undo_unknown_action[where s = s1 and e = env0 and ?e0.0 = env0 and root = root0
        and old = "''a''" and new = "''c''" and force = False and ?s0.0 = state0
        and m = "Renamed ''a.prompt.md'' ''c.prompt.md''"]
    by blast
  have c: "last_action (cfg (state0\<lparr>cfg := cfg0\<lparr>last_action := Some [(''action'', ''copy'')]\<rparr>\<rparr>))
             = Some [(''action'', ''copy'')] \<and> [(''action'', ''copy'')] \<noteq> [] \<and>
           get [(''action'', ''copy'')] ''action'' \<noteq> Some ''remove'' \<and>
           get [(''action'', ''copy'')] ''action'' \<noteq> Some ''add''"
    by (simp add: get_def)
  have v: "perform_undo env0 (state0\<lparr>cfg := cfg0\<lparr>last_action := Some [(''action'', ''copy'')]\<rparr>\<rparr>)
     = (Returned (False, Unknown_action),
        state0\<lparr>cfg := cfg0\<lparr>last_action := Some [(''action'', ''copy'')]\<rparr>\<rparr>)"
    using c undo_unknown_action[where s = "state0\<lparr>cfg := cfg0\<lparr>last_action := Some [(''action'', ''copy'')]\<rparr>\<rparr>"
        and entry = "[(''action'', ''copy'')]" and e = env0]
    by blast
  show ?thesis
    using u v ex_rename_ac(1,3) unfolding s1_def by simp
qed

text \<open>
  C10. The log is written only by a mutation that succeeds and cleared only by an undo
  that succeeds: whenever \<open>add_file\<close>, \<open>remove_prompt\<close>, \<open>rename_prompt\<close> or
  \<open>perform_undo\<close> does not return success (a failure return or an exception), the
  dictionary passed in and the configuration file are what they were, so that the log
  entry is still there for another attempt.
\<close>

theorem failure_keeps_config:
  "(\<not> succeeded (fst (add_file e root src force s)) \<longrightarrow>
      cfg (snd (add_file e root src force s)) = cfg s \<and>
      disk (snd (add_file e root src force s)) = disk s) \<and>
   (\<not> succeeded (fst (remove_prompt e root name yes s)) \<longrightarrow>
      cfg (snd (remove_prompt e root name yes s)) = cfg s \<and>
      disk (snd (remove_prompt e root name yes s)) = disk s) \<and>
   (\<not> succeeded (fst (rename_prompt e root old new force s)) \<longrightarrow>
      cfg (snd (rename_prompt e root old new force s)) = cfg s \<and>
      disk (snd (rename_prompt e root old new force s)) = disk s) \<and>
   (\<not> succeeded (fst (perform_undo e s)) \<longrightarrow>
      cfg (snd (perform_undo e s)) = cfg s \<and>
      disk (snd (perform_undo e s)) = disk s)"
  using add_file_failure[of e root src force s]
        remove_prompt_failure[of e root name yes s]
        rename_prompt_failure[of e root old new force s]
        perform_undo_failure[of e s]
  by (metis prod.collapse)

theorem failure_keeps_config_witness:
  "\<not> succeeded (fst (add_file env0 root0 (Path True [''nowhere'']) False state0)) \<and>
   \<not> succeeded (fst (remove_prompt env0 root0 ''zz'' True state0)) \<and>
   \<not> succeeded (fst (rename_prompt env0 root0 ''zz'' ''b'' False state0)) \<and>
   \<not> succeeded (fst (perform_undo env0 state0)) \<and>
   disk (snd (add_file env0 root0 (Path True [''nowhere'']) False state0)) = cfg0 \<and>
   disk (snd (remove_prompt env0 root0 ''zz'' True state0)) = cfg0 \<and>
   disk (snd (rename_prompt env0 root0 ''zz'' ''b'' False state0)) = cfg0 \<and>
   disk (snd (perform_undo env0 state0)) = cfg0 \<and>
   last_action cfg0 \<noteq> None"
proof -
  have h: "\<not> succeeded (fst (add_file env0 root0 (Path True [''nowhere'']) False state0))"
          "\<not> succeeded (fst (remove_prompt env0 root0 ''zz'' True state0))"
          "\<not> succeeded (fst (rename_prompt env0 root0 ''zz'' ''b'' False state0))"
          "\<not> succeeded (fst (perform_undo env0 state0))"
    by (simp_all add: ex_add_missing ex_remove_missing ex_rename_missing ex_undo_missing)
  have d: "disk state0 = cfg0" "last_action cfg0 \<noteq> None"
    by (simp_all add: state0_def cfg0_def)
  show ?thesis
    using h d
      failure_keeps_config[of env0 root0 "Path True [''nowhere'']" False state0 "''zz''" True "''zz''" "''b''"]
    by simp
qed

end
